theory Spec2Isabelle
  imports Main
begin

section \<open>SQLiteCls: a reopenable connection wrapper\<close>

text \<open>
  The repository is one Python class, \<^verbatim>\<open>SqliteDb\<close> (\<^verbatim>\<open>sqlitecls.py\<close>), that sequences a few
  calls into Python's \<^verbatim>\<open>sqlite3\<close> module. The class is embedded below method by method. The
  module it calls is not part of the repository; it is modelled first, for the fragment of
  its behaviour the class depends on: connections and cursors as resources, the catalog of a
  database, transactions, and a lexer and parser for the statements that occur.
\<close>

subsection \<open>Python values and exceptions\<close>

datatype sql_value = NullV | IntV int | TextV string

type_synonym row = "sql_value list"

text \<open>
  The exceptions that can leave a method of the class. \<open>AttributeError\<close> is what a method
  call on \<^verbatim>\<open>None\<close> raises, \<open>TypeError\<close> what subscripting \<^verbatim>\<open>None\<close> raises,
  \<open>FileNotFoundError\<close> what \<^verbatim>\<open>open\<close> raises; \<open>OperationalError\<close> and \<open>ProgrammingError\<close> are
  those of \<^verbatim>\<open>sqlite3\<close>, with the engine's message. \<open>OutsideFragment\<close> marks a statement that
  the engine may well accept but whose meaning is not modelled here.
\<close>

datatype py_error =
    AttributeError
  | TypeError
  | IndexError
  | FileNotFoundError string
  | OperationalError string
  | ProgrammingError string
  | OutsideFragment

subsection \<open>Databases\<close>

text \<open>
  A database is its catalog (\<^verbatim>\<open>sqlite_master\<close>), in creation order. A table carries the
  number of rows it holds: the class never looks inside a row. \<open>Sequence\<close> is the engine's
  own table \<^verbatim>\<open>sqlite_sequence\<close>, which it adds to the catalog with the first
  \<^verbatim>\<open>AUTOINCREMENT\<close> table and never removes; its content is not modelled.
\<close>

datatype object = Table string nat | View string | Index string | Trigger string | Sequence

type_synonym database = "object list"

fun obj_name :: "object \<Rightarrow> string" where
  "obj_name (Table n _) = n"
| "obj_name (View n) = n"
| "obj_name (Index n) = n"
| "obj_name (Trigger n) = n"
| "obj_name Sequence = ''sqlite_sequence''"

text \<open>The \<^verbatim>\<open>type\<close> column of the catalog.\<close>

fun type_word :: "object \<Rightarrow> string" where
  "type_word (Table _ _) = ''table''"
| "type_word (View _) = ''view''"
| "type_word (Index _) = ''index''"
| "type_word (Trigger _) = ''trigger''"
| "type_word Sequence = ''table''"

definition is_table :: "object \<Rightarrow> bool" where
  "is_table ob = (type_word ob = ''table'')"

text \<open>The tables a user made, as against the engine's own.\<close>

fun user_table :: "object \<Rightarrow> bool" where
  "user_table (Table _ _) = True"
| "user_table _ = False"

definition count_user_tables :: "database \<Rightarrow> nat" where
  "count_user_tables d = length (filter user_table d)"

definition count_tables :: "database \<Rightarrow> nat" where
  "count_tables d = length (filter is_table d)"

definition lookup_obj :: "database \<Rightarrow> string \<Rightarrow> object option" where
  "lookup_obj d n = find (\<lambda>ob. obj_name ob = n) d"

definition count_rows :: "database \<Rightarrow> string \<Rightarrow> nat option" where
  "count_rows d n = (case lookup_obj d n of Some (Table _ k) \<Rightarrow> Some k | _ \<Rightarrow> None)"

fun add_rows :: "string \<Rightarrow> nat \<Rightarrow> database \<Rightarrow> database" where
  "add_rows n k [] = []"
| "add_rows n k (Table m j # d) =
     (if m = n then Table m (j + k) # d else Table m j # add_rows n k d)"
| "add_rows n k (ob # d) = ob # add_rows n k d"

subsection \<open>The lexer\<close>

text \<open>
  A statement text is cut into tokens: maximal runs of letters, digits and underscores, and
  single other characters; white space separates. Keywords compare without regard to case.
\<close>

definition lower_letters :: string where
  "lower_letters = ''abcdefghijklmnopqrstuvwxyz''"

definition upper_letters :: string where
  "upper_letters = ''ABCDEFGHIJKLMNOPQRSTUVWXYZ''"

definition digits :: string where
  "digits = ''0123456789''"

definition is_ident_char :: "char \<Rightarrow> bool" where
  "is_ident_char c = (c \<in> set (lower_letters @ upper_letters @ digits @ ''_''))"

definition is_space :: "char \<Rightarrow> bool" where
  "is_space c = (c \<in> set [CHR '' '', CHR 0x0A, CHR 0x09, CHR 0x0D])"

definition upper :: "char \<Rightarrow> char" where
  "upper c = (case map_of (zip lower_letters upper_letters) c of Some u \<Rightarrow> u | None \<Rightarrow> c)"

definition kw :: "string \<Rightarrow> string" where
  "kw t = map upper t"

fun flush :: "string \<Rightarrow> string list" where
  "flush [] = []"
| "flush acc = [rev acc]"

fun lex :: "string \<Rightarrow> string \<Rightarrow> string list" where
  "lex acc [] = flush acc"
| "lex acc (c # cs) =
     (if is_ident_char c then lex (c # acc) cs
      else flush acc @ (if is_space c then [] else [[c]]) @ lex [] cs)"

definition tokens :: "string \<Rightarrow> string list" where
  "tokens s = lex [] s"

fun split_stmts :: "string list \<Rightarrow> string list \<Rightarrow> string list list" where
  "split_stmts cur [] = (if cur = [] then [] else [rev cur])"
| "split_stmts cur (t # ts) =
     (if t = '';'' then (if cur = [] then [] else [rev cur]) @ split_stmts [] ts
      else split_stmts (t # cur) ts)"

text \<open>The statements of a text: its tokens cut at the semicolons, empty statements dropped.\<close>

definition statements :: "string \<Rightarrow> string list list" where
  "statements s = split_stmts [] (tokens s)"

definition is_word :: "string \<Rightarrow> bool" where
  "is_word t = (t \<noteq> [] \<and> list_all is_ident_char t)"

definition is_number :: "string \<Rightarrow> bool" where
  "is_number t = (t \<noteq> [] \<and> list_all (\<lambda>c. c \<in> set digits) t)"

definition digit_value :: "char \<Rightarrow> nat" where
  "digit_value c = (case map_of (zip digits [0..<10]) c of Some v \<Rightarrow> v | None \<Rightarrow> 0)"

definition number_of :: "string \<Rightarrow> nat" where
  "number_of t = foldl (\<lambda>a c. 10 * a + digit_value c) 0 t"

definition is_name :: "string \<Rightarrow> bool" where
  "is_name t = (case t of [] \<Rightarrow> False | c # _ \<Rightarrow> list_all is_ident_char t \<and> c \<notin> set digits)"

subsection \<open>The statements the class submits\<close>

text \<open>
  The class-level constants of \<^verbatim>\<open>SqliteDb\<close>, as written. \<open>PRAGMAS\<close> begins with the blank
  that the source's first string fragment holds.
\<close>

definition Q_COUNT_TABLES :: string where
  "Q_COUNT_TABLES = ''SELECT count(*) FROM sqlite_master WHERE type='table'' @ [CHR 0x27]"

definition Q_TABLES :: string where
  "Q_TABLES = ''SELECT name FROM sqlite_master WHERE type='table'' @ [CHR 0x27]"

definition Q_START :: string where
  "Q_START = ''START TRANSACTION''"

definition Q_ROLLBACK :: string where
  "Q_ROLLBACK = ''ROLLBACK''"

definition Q_COMMIT :: string where
  "Q_COMMIT = ''COMMIT''"

definition Q_VACUUM :: string where
  "Q_VACUUM = ''VACUUM''"

definition PRAGMAS :: string where
  "PRAGMAS = '' '' @ ''PRAGMA journal_mode = WAL; '' @ ''PRAGMA cache_size = -100000; ''
     @ ''PRAGMA synchronous = EXTRA; '' @ ''PRAGMA temp_store = memory; ''"

definition PRAGMAS_PER_CONNECTION :: string where
  "PRAGMAS_PER_CONNECTION =
     ''PRAGMA encoding = 'UTF-8'' @ [CHR 0x27] @ ''; '' @ ''PRAGMA foreign_keys = ON; ''"

definition PRAGMAS_PER_DB :: string where
  "PRAGMAS_PER_DB = []"

definition PRAGMAS_HARD_CONSISTENCY :: string where
  "PRAGMAS_HARD_CONSISTENCY = []"

subsection \<open>The parser\<close>

text \<open>
  The fragment of the engine's grammar that is given a meaning. \<open>CreateTable\<close> and
  \<open>CreateView\<close> carry whether \<^verbatim>\<open>IF NOT EXISTS\<close> was written, \<open>CreateTable\<close> also whether a
  column is \<^verbatim>\<open>AUTOINCREMENT\<close>; \<open>Insert\<close> carries the number of rows of its \<^verbatim>\<open>VALUES\<close>
  clause. \<open>CountCatalog\<close> and \<open>NamesCatalog\<close> are \<^verbatim>\<open>SELECT count(*)\<close> and \<^verbatim>\<open>SELECT name\<close>
  from \<^verbatim>\<open>sqlite_master\<close>, with the literal of a \<^verbatim>\<open>WHERE type = '...'\<close> clause if there is
  one; \<open>SelectConst\<close> is the select of one number.
\<close>

datatype stmt =
    Begin
  | Commit
  | Rollback
  | Vacuum
  | Pragma string
  | CreateTable bool bool string
  | CreateView bool string
  | DropTable string
  | Insert string nat
  | SelectCount string
  | SelectConst int
  | CountCatalog "string option"
  | NamesCatalog "string option"

text \<open>
  Every statement of the engine begins with one of these keywords; a text that begins with
  any other word is a syntax error at that word.
\<close>

definition statement_keywords :: "string list" where
  "statement_keywords =
     [''ALTER'', ''ANALYZE'', ''ATTACH'', ''BEGIN'', ''COMMIT'', ''CREATE'', ''DELETE'',
      ''DETACH'', ''DROP'', ''END'', ''EXPLAIN'', ''INSERT'', ''PRAGMA'', ''REINDEX'',
      ''RELEASE'', ''REPLACE'', ''ROLLBACK'', ''SAVEPOINT'', ''SELECT'', ''UPDATE'',
      ''VACUUM'', ''VALUES'', ''WITH'']"

definition syntax_error :: "string \<Rightarrow> py_error" where
  "syntax_error t = OperationalError (''near '' @ t @ '': syntax error'')"

definition drop_opt :: "string list \<Rightarrow> string list \<Rightarrow> string list" where
  "drop_opt ks ts = (case ts of [] \<Rightarrow> [] | t # r \<Rightarrow> if kw t \<in> set ks then r else ts)"

definition drop_if_not_exists :: "string list \<Rightarrow> bool \<times> string list" where
  "drop_if_not_exists ts =
     (if map kw (take 3 ts) = [''IF'', ''NOT'', ''EXISTS''] then (True, drop 3 ts)
      else (False, ts))"

text \<open>The number of parenthesised groups at the top level of a token list.\<close>

fun count_groups :: "nat \<Rightarrow> string list \<Rightarrow> nat option" where
  "count_groups depth [] = (if depth = 0 then Some 0 else None)"
| "count_groups depth (t # ts) =
     (if t = ''('' then
        (case count_groups (Suc depth) ts of
           None \<Rightarrow> None
         | Some n \<Rightarrow> Some (if depth = 0 then Suc n else n))
      else if t = '')'' then
        (case depth of 0 \<Rightarrow> None | Suc d \<Rightarrow> count_groups d ts)
      else count_groups depth ts)"

definition parse_transaction :: "stmt \<Rightarrow> string list \<Rightarrow> py_error + stmt" where
  "parse_transaction st ts =
     (if drop_opt [''TRANSACTION''] ts = [] then Inr st else Inl OutsideFragment)"

text \<open>
  A pragma is named by an identifier. A bind parameter is a value, not a name: the engine
  rejects \<^verbatim>\<open>?\<close> in the name's place as a syntax error.
\<close>

definition parse_pragma :: "string list \<Rightarrow> py_error + stmt" where
  "parse_pragma ts =
     (case ts of
        [] \<Rightarrow> Inl (OperationalError ''incomplete input'')
      | n # _ \<Rightarrow>
          if is_name n then Inr (Pragma n)
          else if n = ''?'' then Inl (syntax_error n)
          else Inl OutsideFragment)"

definition parse_create :: "string list \<Rightarrow> py_error + stmt" where
  "parse_create ts =
     (case ts of
        [] \<Rightarrow> Inl (OperationalError ''incomplete input'')
      | t # r \<Rightarrow>
          (case drop_if_not_exists r of
             (ine, n # p # cols) \<Rightarrow>
               if kw t = ''TABLE'' \<and> is_name n \<and> p = ''('' then
                 Inr (CreateTable ine (''AUTOINCREMENT'' \<in> set (map kw cols)) n)
               else if kw t = ''VIEW'' \<and> is_name n \<and> kw p = ''AS'' then Inr (CreateView ine n)
               else Inl OutsideFragment
           | _ \<Rightarrow> Inl OutsideFragment))"

definition parse_drop :: "string list \<Rightarrow> py_error + stmt" where
  "parse_drop ts =
     (case ts of
        [t, n] \<Rightarrow> if kw t = ''TABLE'' \<and> is_name n then Inr (DropTable n) else Inl OutsideFragment
      | _ \<Rightarrow> Inl OutsideFragment)"

definition parse_insert :: "string list \<Rightarrow> py_error + stmt" where
  "parse_insert ts =
     (case ts of
        t # n # r \<Rightarrow>
          (case dropWhile (\<lambda>x. kw x \<noteq> ''VALUES'') r of
             _ # vs \<Rightarrow>
               (case count_groups 0 vs of
                  Some (Suc g) \<Rightarrow>
                    if kw t = ''INTO'' \<and> is_name n then Inr (Insert n (Suc g))
                    else Inl OutsideFragment
                | _ \<Rightarrow> Inl OutsideFragment)
           | [] \<Rightarrow> Inl OutsideFragment)
      | _ \<Rightarrow> Inl OutsideFragment)"

text \<open>
  The selects of the fragment are read from their text: what is selected (\<^verbatim>\<open>count(*)\<close>,
  the column \<^verbatim>\<open>name\<close>, or a number), from which table, and for the catalog the literal its
  \<^verbatim>\<open>type\<close> column is compared with. The catalog goes by the names \<^verbatim>\<open>sqlite_master\<close> and
  \<^verbatim>\<open>sqlite_schema\<close>.
\<close>

definition is_catalog :: "string \<Rightarrow> bool" where
  "is_catalog n = (kw n = ''SQLITE_MASTER'' \<or> kw n = ''SQLITE_SCHEMA'')"

definition parse_where :: "string list \<Rightarrow> string option option" where
  "parse_where ts =
     (case ts of
        [] \<Rightarrow> Some None
      | [w, c, e, q, l, q'] \<Rightarrow>
          if kw w = ''WHERE'' \<and> kw c = ''TYPE'' \<and> e = ''='' \<and> q = [CHR 0x27] \<and> q' = [CHR 0x27]
             \<and> is_word l
          then Some (Some l) else None
      | _ \<Rightarrow> None)"

definition parse_from :: "bool \<Rightarrow> string list \<Rightarrow> py_error + stmt" where
  "parse_from counting ts =
     (case ts of
        [] \<Rightarrow> Inl (OperationalError ''incomplete input'')
      | n # rest \<Rightarrow>
          if is_catalog n then
            (case parse_where rest of
               Some lit \<Rightarrow> Inr (if counting then CountCatalog lit else NamesCatalog lit)
             | None \<Rightarrow> Inl OutsideFragment)
          else if counting \<and> is_name n \<and> rest = [] then Inr (SelectCount n)
          else Inl OutsideFragment)"

definition parse_select :: "string list \<Rightarrow> py_error + stmt" where
  "parse_select ts =
     (case ts of
        [n] \<Rightarrow> if is_number n then Inr (SelectConst (int (number_of n))) else Inl OutsideFragment
      | _ \<Rightarrow>
          if map kw (take 5 ts) = [''COUNT'', ''('', ''*'', '')'', ''FROM''] then
            parse_from True (drop 5 ts)
          else if map kw (take 2 ts) = [''NAME'', ''FROM''] then parse_from False (drop 2 ts)
          else Inl OutsideFragment)"

definition parse_stmt :: "string list \<Rightarrow> py_error + stmt" where
  "parse_stmt ts =
     (case ts of
        [] \<Rightarrow> Inl (OperationalError ''incomplete input'')
      | t # r \<Rightarrow>
          if kw t \<notin> set statement_keywords then Inl (syntax_error t)
          else if kw t = ''BEGIN'' then
            parse_transaction Begin (drop_opt [''DEFERRED'', ''IMMEDIATE'', ''EXCLUSIVE''] r)
          else if kw t = ''COMMIT'' \<or> kw t = ''END'' then parse_transaction Commit r
          else if kw t = ''ROLLBACK'' then parse_transaction Rollback r
          else if kw t = ''VACUUM'' then (if r = [] then Inr Vacuum else Inl OutsideFragment)
          else if kw t = ''PRAGMA'' then parse_pragma r
          else if kw t = ''CREATE'' then parse_create r
          else if kw t = ''DROP'' then parse_drop r
          else if kw t = ''INSERT'' then parse_insert r
          else if kw t = ''SELECT'' then parse_select r
          else Inl OutsideFragment)"

subsection \<open>The engine\<close>

text \<open>
  What one connection sees of its database: the committed content, and the working copy of
  its open transaction, if it has one. Outside a transaction every change is committed at
  once.
\<close>

record session =
  committed :: database
  pending :: "database option"

definition current :: "session \<Rightarrow> database" where
  "current s = (case pending s of Some d \<Rightarrow> d | None \<Rightarrow> committed s)"

definition store :: "database \<Rightarrow> session \<Rightarrow> session" where
  "store d s = (case pending s of Some _ \<Rightarrow> s\<lparr>pending := Some d\<rparr> | None \<Rightarrow> s\<lparr>committed := d\<rparr>)"

definition exists_error :: "object \<Rightarrow> py_error" where
  "exists_error ob = OperationalError (type_word ob @ '' '' @ obj_name ob @ '' already exists'')"

text \<open>Names that begin with \<^verbatim>\<open>sqlite_\<close> are the engine's own.\<close>

definition reserved :: "string \<Rightarrow> bool" where
  "reserved n = (take 7 (kw n) = ''SQLITE_'')"

definition reserved_error :: "string \<Rightarrow> py_error" where
  "reserved_error n = OperationalError (''object name reserved for internal use: '' @ n)"

text \<open>Which catalog entries a \<^verbatim>\<open>WHERE type = '...'\<close> clause lets through.\<close>

fun in_type :: "string option \<Rightarrow> object \<Rightarrow> bool" where
  "in_type None ob = True"
| "in_type (Some l) ob = (type_word ob = l)"

definition no_such_table :: "string \<Rightarrow> py_error" where
  "no_such_table n = OperationalError (''no such table: '' @ n)"

definition exec_stmt :: "stmt \<Rightarrow> session \<Rightarrow> py_error + row list \<times> session" where
  "exec_stmt st s =
     (case st of
        Begin \<Rightarrow>
          (case pending s of
             Some _ \<Rightarrow> Inl (OperationalError ''cannot start a transaction within a transaction'')
           | None \<Rightarrow> Inr ([], s\<lparr>pending := Some (committed s)\<rparr>))
      | Commit \<Rightarrow>
          (case pending s of
             None \<Rightarrow> Inl (OperationalError ''cannot commit - no transaction is active'')
           | Some d \<Rightarrow> Inr ([], \<lparr>committed = d, pending = None\<rparr>))
      | Rollback \<Rightarrow>
          (case pending s of
             None \<Rightarrow> Inl (OperationalError ''cannot rollback - no transaction is active'')
           | Some _ \<Rightarrow> Inr ([], s\<lparr>pending := None\<rparr>))
      | Vacuum \<Rightarrow>
          (case pending s of
             Some _ \<Rightarrow> Inl (OperationalError ''cannot VACUUM from within a transaction'')
           | None \<Rightarrow> Inr ([], s))
      | Pragma n \<Rightarrow> Inr ([], s)
      | CreateTable ine autoinc n \<Rightarrow>
          if reserved n then Inl (reserved_error n)
          else
            (case lookup_obj (current s) n of
               Some ob \<Rightarrow> if ine then Inr ([], s) else Inl (exists_error ob)
             | None \<Rightarrow>
                 Inr ([], store (current s @ [Table n 0]
                                 @ (if autoinc \<and> Sequence \<notin> set (current s) then [Sequence]
                                    else [])) s))
      | CreateView ine n \<Rightarrow>
          if reserved n then Inl (reserved_error n)
          else
            (case lookup_obj (current s) n of
               Some ob \<Rightarrow> if ine then Inr ([], s) else Inl (exists_error ob)
             | None \<Rightarrow> Inr ([], store (current s @ [View n]) s))
      | DropTable n \<Rightarrow>
          (case lookup_obj (current s) n of
             Some (Table _ _) \<Rightarrow> Inr ([], store (filter (\<lambda>ob. obj_name ob \<noteq> n) (current s)) s)
           | Some _ \<Rightarrow> Inl OutsideFragment
           | None \<Rightarrow> Inl (no_such_table n))
      | Insert n k \<Rightarrow>
          (case lookup_obj (current s) n of
             Some (Table _ _) \<Rightarrow> Inr ([], store (add_rows n k (current s)) s)
           | Some _ \<Rightarrow> Inl OutsideFragment
           | None \<Rightarrow> Inl (no_such_table n))
      | SelectCount n \<Rightarrow>
          (case lookup_obj (current s) n of
             Some (Table _ k) \<Rightarrow> Inr ([[IntV (int k)]], s)
           | Some _ \<Rightarrow> Inl OutsideFragment
           | None \<Rightarrow> Inl (no_such_table n))
      | SelectConst i \<Rightarrow> Inr ([[IntV i]], s)
      | CountCatalog lit \<Rightarrow> Inr ([[IntV (int (length (filter (in_type lit) (current s))))]], s)
      | NamesCatalog lit \<Rightarrow>
          Inr (map (\<lambda>ob. [TextV (obj_name ob)]) (filter (in_type lit) (current s)), s))"

text \<open>
  A script runs statement by statement and stops at the first one that fails; what the
  earlier statements did stays done.
\<close>

fun run_script :: "string list list \<Rightarrow> session \<Rightarrow> (py_error + unit) \<times> session" where
  "run_script [] s = (Inr (), s)"
| "run_script (ts # rest) s =
     (case parse_stmt ts of
        Inl e \<Rightarrow> (Inl e, s)
      | Inr st \<Rightarrow>
          (case exec_stmt st s of
             Inl e \<Rightarrow> (Inl e, s)
           | Inr (_, s') \<Rightarrow> run_script rest s'))"

subsection \<open>The \<^verbatim>\<open>sqlite3\<close> module: connections and cursors\<close>

text \<open>
  The world outside the class: the text files by path, which database paths can be opened,
  the committed content of every database, the live connections and cursors, and the trace
  of the calls made so far. A connection to \<^verbatim>\<open>:memory:\<close> (or to the empty path) has a
  database of its own, which dies with it.
\<close>

datatype location = File string | Memory nat

record conn =
  target :: location
  tx :: "database option"

datatype event =
    EvConnect string
  | EvCursor nat
  | EvExecute string "sql_value list"
  | EvOpenFile string
  | EvExecuteScript string
  | EvCursorClose nat
  | EvConnectionClose nat

record world =
  files :: "string \<rightharpoonup> string"
  openable :: "string \<Rightarrow> bool"
  dbs :: "location \<rightharpoonup> database"
  conns :: "nat \<rightharpoonup> conn"
  cursors :: "nat \<rightharpoonup> nat"
  next_id :: nat
  trace :: "event list"

definition emit :: "event \<Rightarrow> world \<Rightarrow> world" where
  "emit e w = w\<lparr>trace := trace w @ [e]\<rparr>"

definition content :: "world \<Rightarrow> location \<Rightarrow> database" where
  "content w l = (case dbs w l of Some d \<Rightarrow> d | None \<Rightarrow> [])"

definition sqlite3_connect :: "string \<Rightarrow> world \<Rightarrow> (py_error + nat) \<times> world" where
  "sqlite3_connect name w =
     (let w1 = emit (EvConnect name) w; c = next_id w in
      if name = '':memory:'' \<or> name = [] then
        (Inr c, w1\<lparr>dbs := (dbs w)(Memory c \<mapsto> []),
                    conns := (conns w)(c \<mapsto> \<lparr>target = Memory c, tx = None\<rparr>),
                    next_id := Suc c\<rparr>)
      else if \<not> openable w name then
        (Inl (OperationalError ''unable to open database file''), w1)
      else
        (Inr c, w1\<lparr>dbs := (dbs w)(File name \<mapsto> content w (File name)),
                    conns := (conns w)(c \<mapsto> \<lparr>target = File name, tx = None\<rparr>),
                    next_id := Suc c\<rparr>))"

definition connection_cursor :: "nat \<Rightarrow> world \<Rightarrow> (py_error + nat) \<times> world" where
  "connection_cursor c w =
     (let w1 = emit (EvCursor c) w; k = next_id w in
      case conns w c of
        None \<Rightarrow> (Inl (ProgrammingError ''Cannot operate on a closed database.''), w1)
      | Some _ \<Rightarrow> (Inr k, w1\<lparr>cursors := (cursors w)(k \<mapsto> c), next_id := Suc k\<rparr>))"

definition live_cursor :: "world \<Rightarrow> nat \<Rightarrow> py_error + nat \<times> conn" where
  "live_cursor w k =
     (case cursors w k of
        None \<Rightarrow> Inl (ProgrammingError ''Cannot operate on a closed cursor.'')
      | Some c \<Rightarrow>
          (case conns w c of
             None \<Rightarrow> Inl (ProgrammingError ''Cannot operate on a closed database.'')
           | Some cn \<Rightarrow> Inr (c, cn)))"

definition session_of :: "world \<Rightarrow> conn \<Rightarrow> session" where
  "session_of w cn = \<lparr>committed = content w (target cn), pending = tx cn\<rparr>"

definition put_session :: "nat \<Rightarrow> conn \<Rightarrow> session \<Rightarrow> world \<Rightarrow> world" where
  "put_session c cn s w =
     w\<lparr>dbs := (dbs w)(target cn \<mapsto> committed s), conns := (conns w)(c \<mapsto> cn\<lparr>tx := pending s\<rparr>)\<rparr>"

text \<open>
  Python opens a transaction by itself before a statement that changes rows, when none is
  open (the module's default isolation level).
\<close>

fun changes_rows :: "stmt \<Rightarrow> bool" where
  "changes_rows (Insert _ _) = True"
| "changes_rows _ = False"

definition implicit_begin :: "stmt \<Rightarrow> session \<Rightarrow> session" where
  "implicit_begin st s =
     (if changes_rows st \<and> pending s = None then s\<lparr>pending := Some (committed s)\<rparr> else s)"

text \<open>
  \<^verbatim>\<open>cursor.execute(sql, params)\<close>: one statement, prepared first (so a syntax error comes
  before the parameters are looked at), then bound, then run. The answer is the result
  rows.
\<close>

definition cursor_execute ::
  "nat \<Rightarrow> string \<Rightarrow> sql_value list \<Rightarrow> world \<Rightarrow> (py_error + row list) \<times> world" where
  "cursor_execute k sql params w =
     (let w1 = emit (EvExecute sql params) w in
      case live_cursor w k of
        Inl e \<Rightarrow> (Inl e, w1)
      | Inr (c, cn) \<Rightarrow>
          (case statements sql of
             [] \<Rightarrow> (Inr [], w1)
           | [ts] \<Rightarrow>
               (case parse_stmt ts of
                  Inl e \<Rightarrow> (Inl e, w1)
                | Inr st \<Rightarrow>
                    if count_list ts ''?'' \<noteq> length params then
                      (Inl (ProgrammingError ''Incorrect number of bindings supplied.''), w1)
                    else
                      (let s = implicit_begin st (session_of w cn) in
                       case exec_stmt st s of
                         Inl e \<Rightarrow> (Inl e, put_session c cn s w1)
                       | Inr (rows, s') \<Rightarrow> (Inr rows, put_session c cn s' w1)))
           | _ \<Rightarrow> (Inl (ProgrammingError ''You can only execute one statement at a time.''), w1)))"

text \<open>
  \<^verbatim>\<open>cursor.executescript(text)\<close>: commits a pending transaction first, then runs the
  statements as they are.
\<close>

definition commit_pending :: "session \<Rightarrow> session" where
  "commit_pending s =
     (case pending s of Some d \<Rightarrow> \<lparr>committed = d, pending = None\<rparr> | None \<Rightarrow> s)"

definition cursor_executescript :: "nat \<Rightarrow> string \<Rightarrow> world \<Rightarrow> (py_error + unit) \<times> world" where
  "cursor_executescript k text w =
     (let w1 = emit (EvExecuteScript text) w in
      case live_cursor w k of
        Inl e \<Rightarrow> (Inl e, w1)
      | Inr (c, cn) \<Rightarrow>
          (case run_script (statements text) (commit_pending (session_of w cn)) of
             (r, s) \<Rightarrow> (r, put_session c cn s w1)))"

text \<open>Closing never fails; closing a connection discards its uncommitted transaction.\<close>

definition cursor_close :: "nat \<Rightarrow> world \<Rightarrow> world" where
  "cursor_close k w = (emit (EvCursorClose k) w)\<lparr>cursors := (cursors w)(k := None)\<rparr>"

definition connection_close :: "nat \<Rightarrow> world \<Rightarrow> world" where
  "connection_close c w =
     (emit (EvConnectionClose c) w)
       \<lparr>conns := (conns w)(c := None),
        dbs := (case conns w c of
                  Some cn \<Rightarrow>
                    (case target cn of Memory m \<Rightarrow> (dbs w)(Memory m := None) | File _ \<Rightarrow> dbs w)
                | None \<Rightarrow> dbs w)\<rparr>"

text \<open>\<^verbatim>\<open>open(file_name).read()\<close>\<close>

definition read_file :: "string \<Rightarrow> world \<Rightarrow> (py_error + string) \<times> world" where
  "read_file file_name w =
     (case files w file_name of
        None \<Rightarrow> (Inl (FileNotFoundError file_name), emit (EvOpenFile file_name) w)
      | Some text \<Rightarrow> (Inr text, emit (EvOpenFile file_name) w))"

subsection \<open>The class \<^verbatim>\<open>SqliteDb\<close>\<close>

text \<open>
  The four attributes of an instance. \<open>connection\<close> and \<open>cursor\<close> hold the identifier of
  an engine connection and cursor, or \<^verbatim>\<open>None\<close>. A method that can raise returns its result
  or the exception together with the world it leaves; the two methods that assign to
  attributes return the instance as well, so that the state an exception leaves behind is
  part of the outcome.
\<close>

record handle =
  db_file_name :: string
  init_script_file_name :: "string option"
  connection :: "nat option"
  cursor :: "nat option"

text \<open>\<^verbatim>\<open>__init__\<close>: stores its arguments; no call into the engine, no file access.\<close>

definition init :: "string \<Rightarrow> string option \<Rightarrow> handle" where
  "init name script =
     \<lparr>db_file_name = name, init_script_file_name = script, connection = None, cursor = None\<rparr>"

text \<open>Python's truth value of an optional string: \<^verbatim>\<open>None\<close> and \<^verbatim>\<open>''\<close> are false.\<close>

definition truthy :: "string option \<Rightarrow> bool" where
  "truthy v = (case v of None \<Rightarrow> False | Some s \<Rightarrow> s \<noteq> [])"

text \<open>
  \<^verbatim>\<open>.fetchone()[0]\<close> on the rows a statement answered: \<^verbatim>\<open>fetchone\<close> gives \<^verbatim>\<open>None\<close> when there
  is no row, and subscripting that raises.
\<close>

definition fetchone_0 :: "row list \<Rightarrow> py_error + sql_value" where
  "fetchone_0 rows =
     (case rows of
        [] \<Rightarrow> Inl TypeError
      | r # _ \<Rightarrow> (case r of [] \<Rightarrow> Inl IndexError | v # _ \<Rightarrow> Inr v))"

definition is_empty_db :: "handle \<Rightarrow> world \<Rightarrow> (py_error + bool) \<times> world" where
  "is_empty_db h w =
     (case cursor h of
        None \<Rightarrow> (Inl AttributeError, w)
      | Some k \<Rightarrow>
          (case cursor_execute k Q_COUNT_TABLES [] w of
             (Inl e, w1) \<Rightarrow> (Inl e, w1)
           | (Inr rows, w1) \<Rightarrow>
               (case fetchone_0 rows of
                  Inl e \<Rightarrow> (Inl e, w1)
                | Inr v \<Rightarrow> (Inr (v = IntV 0), w1))))"

text \<open>
  \<^verbatim>\<open>execute_file\<close>: the file is opened first, then \<^verbatim>\<open>self.cursor.executescript\<close> is looked up
  and gets the whole text. The files of the world hold decoded text, so the \<^verbatim>\<open>encoding\<close>
  argument has no counterpart.
\<close>

definition execute_file :: "handle \<Rightarrow> string \<Rightarrow> world \<Rightarrow> (py_error + unit) \<times> world" where
  "execute_file h file_name w =
     (case read_file file_name w of
        (Inl e, w1) \<Rightarrow> (Inl e, w1)
      | (Inr text, w1) \<Rightarrow>
          (case cursor h of
             None \<Rightarrow> (Inl AttributeError, w1)
           | Some k \<Rightarrow> cursor_executescript k text w1))"

text \<open>
  \<^verbatim>\<open>__enter__\<close>. The condition is Python's \<^verbatim>\<open>and\<close>: \<^verbatim>\<open>is_empty_db\<close> is called only when the
  script name is true. An exception leaves the attributes as assigned so far.
\<close>

definition enter :: "handle \<Rightarrow> world \<Rightarrow> (py_error + unit) \<times> handle \<times> world" where
  "enter h w =
     (case sqlite3_connect (db_file_name h) w of
        (Inl e, w1) \<Rightarrow> (Inl e, h, w1)
      | (Inr c, w1) \<Rightarrow>
          (let h1 = h\<lparr>connection := Some c\<rparr> in
           case connection_cursor c w1 of
             (Inl e, w2) \<Rightarrow> (Inl e, h1, w2)
           | (Inr k, w2) \<Rightarrow>
               (let h2 = h1\<lparr>cursor := Some k\<rparr> in
                case init_script_file_name h2 of
                  None \<Rightarrow> (Inr (), h2, w2)
                | Some f \<Rightarrow>
                    if f = [] then (Inr (), h2, w2)
                    else
                      (case is_empty_db h2 w2 of
                         (Inl e, w3) \<Rightarrow> (Inl e, h2, w3)
                       | (Inr is_empty, w3) \<Rightarrow>
                           if is_empty then
                             (case execute_file h2 f w3 of
                                (Inl e, w4) \<Rightarrow> (Inl e, h2, w4)
                              | (Inr _, w4) \<Rightarrow> (Inr (), h2, w4))
                           else (Inr (), h2, w3)))))"

text \<open>\<^verbatim>\<open>__exit__\<close>. A cursor or connection object is always true, so the tests are for \<^verbatim>\<open>None\<close>.\<close>

definition exit :: "handle \<Rightarrow> world \<Rightarrow> (py_error + unit) \<times> handle \<times> world" where
  "exit h w =
     (let (h1, w1) = (case cursor h of
                        Some k \<Rightarrow> (h\<lparr>cursor := None\<rparr>, cursor_close k w)
                      | None \<Rightarrow> (h, w));
          (h2, w2) = (case connection h1 of
                        Some c \<Rightarrow> (h1\<lparr>connection := None\<rparr>, connection_close c w1)
                      | None \<Rightarrow> (h1, w1))
      in (Inr (), h2, w2))"

text \<open>\<^verbatim>\<open>__getitem__\<close> and \<^verbatim>\<open>__setitem__\<close>: the name (and the value) go in as bound parameters.\<close>

definition getitem :: "handle \<Rightarrow> string \<Rightarrow> world \<Rightarrow> (py_error + sql_value) \<times> world" where
  "getitem h item w =
     (case cursor h of
        None \<Rightarrow> (Inl AttributeError, w)
      | Some k \<Rightarrow>
          (case cursor_execute k ''PRAGMA ?'' [TextV item] w of
             (Inl e, w1) \<Rightarrow> (Inl e, w1)
           | (Inr rows, w1) \<Rightarrow> (fetchone_0 rows, w1)))"

definition setitem :: "handle \<Rightarrow> sql_value \<Rightarrow> sql_value \<Rightarrow> world \<Rightarrow> (py_error + unit) \<times> world" where
  "setitem h key val w =
     (case cursor h of
        None \<Rightarrow> (Inl AttributeError, w)
      | Some k \<Rightarrow>
          (case cursor_execute k ''PRAGMA ? = ?'' [key, val] w of
             (Inl e, w1) \<Rightarrow> (Inl e, w1)
           | (Inr _, w1) \<Rightarrow> (Inr (), w1)))"

text \<open>The four one-statement methods.\<close>

definition start_transaction :: "handle \<Rightarrow> world \<Rightarrow> (py_error + unit) \<times> world" where
  "start_transaction h w =
     (case cursor h of
        None \<Rightarrow> (Inl AttributeError, w)
      | Some k \<Rightarrow>
          (case cursor_execute k Q_START [] w of
             (Inl e, w1) \<Rightarrow> (Inl e, w1)
           | (Inr _, w1) \<Rightarrow> (Inr (), w1)))"

definition rollback :: "handle \<Rightarrow> world \<Rightarrow> (py_error + unit) \<times> world" where
  "rollback h w =
     (case cursor h of
        None \<Rightarrow> (Inl AttributeError, w)
      | Some k \<Rightarrow>
          (case cursor_execute k Q_ROLLBACK [] w of
             (Inl e, w1) \<Rightarrow> (Inl e, w1)
           | (Inr _, w1) \<Rightarrow> (Inr (), w1)))"

definition commit :: "handle \<Rightarrow> world \<Rightarrow> (py_error + unit) \<times> world" where
  "commit h w =
     (case cursor h of
        None \<Rightarrow> (Inl AttributeError, w)
      | Some k \<Rightarrow>
          (case cursor_execute k Q_COMMIT [] w of
             (Inl e, w1) \<Rightarrow> (Inl e, w1)
           | (Inr _, w1) \<Rightarrow> (Inr (), w1)))"

definition vacuum :: "handle \<Rightarrow> world \<Rightarrow> (py_error + unit) \<times> world" where
  "vacuum h w =
     (case cursor h of
        None \<Rightarrow> (Inl AttributeError, w)
      | Some k \<Rightarrow>
          (case cursor_execute k Q_VACUUM [] w of
             (Inl e, w1) \<Rightarrow> (Inl e, w1)
           | (Inr _, w1) \<Rightarrow> (Inr (), w1)))"

text \<open>
  \<^verbatim>\<open>check\<close>: two pragma reads through \<^verbatim>\<open>__getitem__\<close>, results dropped. The remaining
  methods of the class (\<^verbatim>\<open>backup\<close>, \<^verbatim>\<open>import\<close>, \<^verbatim>\<open>export\<close>, \<^verbatim>\<open>isolation_level\<close>,
  \<^verbatim>\<open>journal_mode\<close>, \<^verbatim>\<open>syncrhonisation\<close>, \<^verbatim>\<open>db_size\<close>) have the body \<^verbatim>\<open>pass\<close> and are left
  out, as is \<^verbatim>\<open>tables_names\<close>, which nothing below refers to. (As the source stands, the
  method name \<^verbatim>\<open>import\<close> is a reserved word of Python; the embedding reads the other methods
  as written.)
\<close>

definition check :: "handle \<Rightarrow> world \<Rightarrow> (py_error + unit) \<times> world" where
  "check h w =
     (case getitem h ''foreign_key_check'' w of
        (Inl e, w1) \<Rightarrow> (Inl e, w1)
      | (Inr _, w1) \<Rightarrow>
          (case getitem h ''integrity_check'' w1 of
             (Inl e, w2) \<Rightarrow> (Inl e, w2)
           | (Inr _, w2) \<Rightarrow> (Inr (), w2)))"

subsection \<open>Sequences of calls and what they leave in the trace\<close>

text \<open>
  A caller may open and close an instance in any order, and go on after an exception.
\<close>

datatype op = Open | Close

fun run :: "op list \<Rightarrow> handle \<Rightarrow> world \<Rightarrow> handle \<times> world" where
  "run [] h w = (h, w)"
| "run (Open # ops) h w = (case enter h w of (_, h1, w1) \<Rightarrow> run ops h1 w1)"
| "run (Close # ops) h w = (case exit h w of (_, h1, w1) \<Rightarrow> run ops h1 w1)"

text \<open>
  An instance is open in a world when its connection is live there and its cursor is a live
  cursor of that connection.
\<close>

definition is_open :: "handle \<Rightarrow> world \<Rightarrow> bool" where
  "is_open h w =
     (case connection h of
        None \<Rightarrow> False
      | Some c \<Rightarrow>
          conns w c \<noteq> None \<and> (case cursor h of None \<Rightarrow> False | Some k \<Rightarrow> cursors w k = Some c))"

text \<open>The statement texts the engine was given, and how often a script was handed over.\<close>

fun submitted :: "event list \<Rightarrow> string list" where
  "submitted [] = []"
| "submitted (EvExecute sql _ # es) = sql # submitted es"
| "submitted (EvExecuteScript text # es) = text # submitted es"
| "submitted (_ # es) = submitted es"

fun script_runs :: "event list \<Rightarrow> nat" where
  "script_runs [] = 0"
| "script_runs (EvExecuteScript _ # es) = Suc (script_runs es)"
| "script_runs (_ # es) = script_runs es"

text \<open>The database a path names, as its file holds it.\<close>

definition db_of :: "world \<Rightarrow> string \<Rightarrow> database" where
  "db_of w name = content w (File name)"

subsection \<open>Vocabulary for the statements below\<close>

text \<open>
  A private database (\<^verbatim>\<open>:memory:\<close> or the empty path) is created empty at every connect;
  any other name is a file, which the connect may fail to open.
\<close>

definition is_private :: "string \<Rightarrow> bool" where
  "is_private name = (name = '':memory:'' \<or> name = [])"

definition can_connect :: "world \<Rightarrow> string \<Rightarrow> bool" where
  "can_connect w name = (is_private name \<or> openable w name)"

text \<open>A database file is newly created by a connect when no file of that name exists yet.\<close>

definition newly_created :: "world \<Rightarrow> string \<Rightarrow> bool" where
  "newly_created w name = (is_private name \<or> dbs w (File name) = None)"

text \<open>The database a new connection to \<open>name\<close> finds, and where it lives.\<close>

definition opened_db :: "world \<Rightarrow> string \<Rightarrow> database" where
  "opened_db w name = (if is_private name then [] else content w (File name))"

definition loc_of :: "world \<Rightarrow> string \<Rightarrow> location" where
  "loc_of w name = (if is_private name then Memory (next_id w) else File name)"

definition fresh_session :: "world \<Rightarrow> string \<Rightarrow> session" where
  "fresh_session w name = \<lparr>committed = opened_db w name, pending = None\<rparr>"

text \<open>The world after a successful connect and cursor call.\<close>

definition connected :: "string \<Rightarrow> world \<Rightarrow> world" where
  "connected name w =
     w\<lparr>trace := trace w @ [EvConnect name, EvCursor (next_id w)],
       dbs := (dbs w)(loc_of w name \<mapsto> opened_db w name),
       conns := (conns w)(next_id w \<mapsto> \<lparr>target = loc_of w name, tx = None\<rparr>),
       cursors := (cursors w)(Suc (next_id w) \<mapsto> next_id w),
       next_id := Suc (Suc (next_id w))\<rparr>"

text \<open>What the instance's cursor sees of its database, when the instance is open.\<close>

definition view :: "handle \<Rightarrow> world \<Rightarrow> database option" where
  "view h w =
     (case cursor h of
        None \<Rightarrow> None
      | Some k \<Rightarrow>
          (case live_cursor w k of
             Inl _ \<Rightarrow> None
           | Inr (c, cn) \<Rightarrow> Some (current (session_of w cn))))"

definition consistent :: "handle \<Rightarrow> world \<Rightarrow> bool" where
  "consistent h w =
     ((connection h \<noteq> None) = is_open h w \<and> (cursor h = None) = (connection h = None))"

text \<open>The calls one \<^verbatim>\<open>__enter__\<close> makes, in order.\<close>

definition enter_events :: "handle \<Rightarrow> world \<Rightarrow> event list" where
  "enter_events h w =
     EvConnect (db_file_name h) #
     (if can_connect w (db_file_name h) then
        EvCursor (next_id w) #
        (case init_script_file_name h of
           None \<Rightarrow> []
         | Some f \<Rightarrow>
             if f = [] then []
             else EvExecute Q_COUNT_TABLES [] #
                  (if count_tables (opened_db w (db_file_name h)) = 0 then
                     EvOpenFile f #
                     (case files w f of None \<Rightarrow> [] | Some text \<Rightarrow> [EvExecuteScript text])
                   else []))
      else [])"

text \<open>
  A world in which nothing has happened yet: the given text files, no database file, every
  path can be opened.
\<close>

definition fresh_world :: "(string \<times> string) list \<Rightarrow> world" where
  "fresh_world fs =
     \<lparr>files = map_of fs, openable = (\<lambda>_. True), dbs = Map.empty, conns = Map.empty,
      cursors = Map.empty, next_id = 0, trace = []\<rparr>"

text \<open>The events that release a resource.\<close>

fun is_close :: "event \<Rightarrow> bool" where
  "is_close (EvCursorClose _) = True"
| "is_close (EvConnectionClose _) = True"
| "is_close _ = False"

text \<open>
  All statements the engine was given, and whether the six pragma statements of the two
  non-empty pragma constants are among them.
\<close>

definition received :: "event list \<Rightarrow> string list list" where
  "received tr = concat (map statements (submitted tr))"

definition pragma_statements :: "string list list" where
  "pragma_statements = statements (PRAGMAS @ PRAGMAS_PER_CONNECTION)"

definition pragmas_applied :: "event list \<Rightarrow> bool" where
  "pragmas_applied tr = list_all (\<lambda>st. st \<in> set (received tr)) pragma_statements"

text \<open>
  Three init scripts: one that creates a table with three rows (as the test suite's does),
  one whose second statement fails, and one that creates a view and no table.
\<close>

definition points_sql :: string where
  "points_sql =
     ''CREATE TABLE test_points(x INTEGER, y INTEGER); ''
     @ ''INSERT INTO test_points VALUES (1, 2); ''
     @ ''INSERT INTO test_points VALUES (3, 4); ''
     @ ''INSERT INTO test_points VALUES (5, 6);''"

definition broken_sql :: string where
  "broken_sql = ''CREATE TABLE a(x INTEGER); INSERT INTO b VALUES (1);''"

definition view_sql :: string where
  "view_sql = ''CREATE VIEW v AS SELECT 1;''"

text \<open>A world that already holds a database file with the given content.\<close>

definition stored_world :: "(string \<times> string) list \<Rightarrow> string \<Rightarrow> database \<Rightarrow> world" where
  "stored_world fs name d = (fresh_world fs)\<lparr>dbs := [File name \<mapsto> d]\<rparr>"

text \<open>
  The scenario of the test suite's reopening test, in the order the specification tells it:
  open a new file with an init script, close, open again, run one statement \<open>q\<close> on the
  cursor and commit.
\<close>

definition reopen_and_insert :: "string \<Rightarrow> string \<Rightarrow> string \<Rightarrow> world \<Rightarrow> world" where
  "reopen_and_insert name f q w =
     (case run [Open, Close, Open] (init name (Some f)) w of
        (h, w1) \<Rightarrow>
          (case cursor h of
             None \<Rightarrow> w1
           | Some k \<Rightarrow> (case cursor_execute k q [] w1 of (_, w2) \<Rightarrow> snd (commit h w2))))"

text \<open>
  A script that creates a table with an \<^verbatim>\<open>AUTOINCREMENT\<close> column and drops it again.
\<close>

definition sequence_sql :: string where
  "sequence_sql = ''CREATE TABLE t(id INTEGER PRIMARY KEY AUTOINCREMENT); DROP TABLE t;''"

section \<open>Properties\<close>

subsection \<open>The count query and the empty check\<close>

lemma statements_count: "statements Q_COUNT_TABLES = [tokens Q_COUNT_TABLES]"
  by code_simp

text \<open>
  The class's count query, read from its text: a count over the catalog of the entries whose
  type is \<^verbatim>\<open>table\<close>.
\<close>

lemma parse_count: "parse_stmt (tokens Q_COUNT_TABLES) = Inr (CountCatalog (Some ''table''))"
  by code_simp

lemma is_table_simps:
  "is_table (Table n k)" "\<not> is_table (View n)" "\<not> is_table (Index n)"
  "\<not> is_table (Trigger n)" "is_table Sequence"
  by (simp_all add: is_table_def)

lemma filter_is_table: "filter is_table d = filter (\<lambda>ob. type_word ob = ''table'') d"
  by (induction d) (simp_all add: is_table_def)

lemma count_typed: "length (filter (in_type (Some ''table'')) d) = count_tables d"
  by (induction d) (simp_all add: count_tables_def is_table_def)

lemma bindings_count: "count_list (tokens Q_COUNT_TABLES) ''?'' = 0"
  by code_simp

lemma cursor_execute_count:
  "live_cursor w k = Inr (c, cn) \<Longrightarrow>
   cursor_execute k Q_COUNT_TABLES [] w =
     (Inr [[IntV (int (count_tables (current (session_of w cn))))]],
      put_session c cn (session_of w cn) (emit (EvExecute Q_COUNT_TABLES []) w))"
  by (simp add: cursor_execute_def statements_count parse_count bindings_count
      implicit_begin_def exec_stmt_def Let_def count_typed)

lemma is_empty_db_live:
  "cursor h = Some k \<Longrightarrow> live_cursor w k = Inr (c, cn) \<Longrightarrow>
   is_empty_db h w =
     (Inr (count_tables (current (session_of w cn)) = 0),
      put_session c cn (session_of w cn) (emit (EvExecute Q_COUNT_TABLES []) w))"
  by (simp add: is_empty_db_def cursor_execute_count fetchone_0_def)

lemma live_emit: "live_cursor (emit e w) k = live_cursor w k"
  by (simp add: live_cursor_def emit_def split: option.splits)

lemma session_emit: "session_of (emit e w) cn = session_of w cn"
  by (simp add: session_of_def emit_def content_def)

lemma view_emit: "view h (emit e w) = view h w"
  by (simp add: view_def live_emit session_emit split: option.splits sum.splits prod.splits)

lemma view_put_session:
  "cursor h = Some k \<Longrightarrow> live_cursor w k = Inr (c, cn) \<Longrightarrow>
   view h (put_session c cn s w) = Some (current s)"
  by (auto simp add: view_def live_cursor_def put_session_def session_of_def content_def
      current_def split: option.splits)

lemma is_open_live:
  "is_open h w \<Longrightarrow> \<exists>k c cn. cursor h = Some k \<and> live_cursor w k = Inr (c, cn)"
  by (auto simp add: is_open_def live_cursor_def split: option.splits)

text \<open>
  Claim C7, as amended. The query of \<^verbatim>\<open>is_empty_db\<close> is, read from its text, a count of the
  catalog entries whose type is \<^verbatim>\<open>table\<close>. On an open instance the method returns true
  exactly when the catalog its cursor sees has no such entry, and the query leaves the
  database as it was. On a closed instance (\<^verbatim>\<open>cursor\<close> is \<^verbatim>\<open>None\<close>) it fails before reaching
  the engine, with the \<open>AttributeError\<close> of a method call on \<^verbatim>\<open>None\<close>: the class has no check
  for being open and no exception of its own.
\<close>

theorem is_empty_db_counts_tables:
  "map parse_stmt (statements Q_COUNT_TABLES) = [Inr (CountCatalog (Some ''table''))]
   \<and> (is_open h w \<longrightarrow>
        (\<exists>d. view h w = Some d
           \<and> fst (is_empty_db h w) = Inr (filter (\<lambda>ob. type_word ob = ''table'') d = [])
           \<and> view h (snd (is_empty_db h w)) = Some d))
   \<and> (cursor h = None \<longrightarrow> is_empty_db h w = (Inl AttributeError, w))"
proof (intro conjI impI)
  show "map parse_stmt (statements Q_COUNT_TABLES) = [Inr (CountCatalog (Some ''table''))]"
    by code_simp
next
  assume "is_open h w"
  from is_open_live [OF this] obtain k c cn where
    k: "cursor h = Some k" and l: "live_cursor w k = Inr (c, cn)"
    by blast
  have l': "live_cursor (emit (EvExecute Q_COUNT_TABLES []) w) k = Inr (c, cn)"
    by (simp add: live_emit l)
  have "view h w = Some (current (session_of w cn))"
    by (simp add: view_def k l)
  moreover have "fst (is_empty_db h w) =
      Inr (filter (\<lambda>ob. type_word ob = ''table'') (current (session_of w cn)) = [])"
    by (simp add: is_empty_db_live [OF k l] count_tables_def filter_is_table)
  moreover have "view h (snd (is_empty_db h w)) = Some (current (session_of w cn))"
    by (simp add: is_empty_db_live [OF k l] view_put_session [OF k l'])
  ultimately show "\<exists>d. view h w = Some d
      \<and> fst (is_empty_db h w) = Inr (filter (\<lambda>ob. type_word ob = ''table'') d = [])
      \<and> view h (snd (is_empty_db h w)) = Some d"
    by simp
next
  assume "cursor h = None"
  then show "is_empty_db h w = (Inl AttributeError, w)"
    by (simp add: is_empty_db_def)
qed

text \<open>
  The witness: a new database is empty, the database the test suite's script has filled is
  not, and a closed instance raises.
\<close>

theorem is_empty_db_counts_tables_witness:
  "is_open (fst (snd (enter (init ''testing_sqlite.db'' None) (fresh_world []))))
          (snd (snd (enter (init ''testing_sqlite.db'' None) (fresh_world []))))
   \<and> fst (is_empty_db (fst (snd (enter (init ''testing_sqlite.db'' None) (fresh_world []))))
          (snd (snd (enter (init ''testing_sqlite.db'' None) (fresh_world []))))) = Inr True
   \<and> is_open (fst (snd (enter (init ''testing_sqlite.db'' (Some ''testing_init.sql''))
                  (fresh_world [(''testing_init.sql'', points_sql)]))))
          (snd (snd (enter (init ''testing_sqlite.db'' (Some ''testing_init.sql''))
                  (fresh_world [(''testing_init.sql'', points_sql)]))))
   \<and> fst (is_empty_db
            (fst (snd (enter (init ''testing_sqlite.db'' (Some ''testing_init.sql''))
                  (fresh_world [(''testing_init.sql'', points_sql)]))))
            (snd (snd (enter (init ''testing_sqlite.db'' (Some ''testing_init.sql''))
                  (fresh_world [(''testing_init.sql'', points_sql)]))))) = Inr False
   \<and> cursor (init ''testing_sqlite.db'' None) = None
   \<and> is_empty_db (init ''testing_sqlite.db'' None) (fresh_world []) =
       (Inl AttributeError, fresh_world [])"
proof -
  let ?h = "fst (snd (enter (init ''testing_sqlite.db'' None) (fresh_world [])))"
  let ?w = "snd (snd (enter (init ''testing_sqlite.db'' None) (fresh_world [])))"
  let ?hp = "fst (snd (enter (init ''testing_sqlite.db'' (Some ''testing_init.sql''))
                  (fresh_world [(''testing_init.sql'', points_sql)])))"
  let ?wp = "snd (snd (enter (init ''testing_sqlite.db'' (Some ''testing_init.sql''))
                  (fresh_world [(''testing_init.sql'', points_sql)])))"
  have o: "is_open ?h ?w" by code_simp
  have v: "view ?h ?w = Some []" by code_simp
  have op: "is_open ?hp ?wp" by code_simp
  have vp: "view ?hp ?wp = Some [Table ''test_points'' 3]" by code_simp
  have c: "cursor (init ''testing_sqlite.db'' None) = None" by (simp add: init_def)
  from is_empty_db_counts_tables [of ?h ?w] o v
  have "fst (is_empty_db ?h ?w) = Inr True"
    by auto
  moreover from is_empty_db_counts_tables [of ?hp ?wp] op vp
  have "fst (is_empty_db ?hp ?wp) = Inr False"
    by auto
  moreover from is_empty_db_counts_tables [of "init ''testing_sqlite.db'' None" "fresh_world []"] c
  have "is_empty_db (init ''testing_sqlite.db'' None) (fresh_world []) =
      (Inl AttributeError, fresh_world [])"
    by simp
  ultimately show ?thesis using o op c by simp
qed

text \<open>
  Claim C7 as stated speaks of the user-visible tables and of a \<open>NotOpenError\<close>. After a
  script that creates an \<^verbatim>\<open>AUTOINCREMENT\<close> table and drops it, the database has no table of
  the user's, yet the engine's \<^verbatim>\<open>sqlite_sequence\<close> is still in the catalog with type
  \<^verbatim>\<open>table\<close>, and \<^verbatim>\<open>is_empty_db\<close> returns false. And the failure on a closed instance is the
  \<open>AttributeError\<close> of the call on \<^verbatim>\<open>None\<close>.
\<close>

theorem is_empty_db_internal_table_counterexample:
  "view (fst (snd (enter (init ''testing_sqlite.db'' (Some ''testing_init.sql''))
                (fresh_world [(''testing_init.sql'', sequence_sql)]))))
        (snd (snd (enter (init ''testing_sqlite.db'' (Some ''testing_init.sql''))
                (fresh_world [(''testing_init.sql'', sequence_sql)])))) = Some [Sequence]
   \<and> count_user_tables [Sequence] = 0
   \<and> fst (is_empty_db
            (fst (snd (enter (init ''testing_sqlite.db'' (Some ''testing_init.sql''))
                (fresh_world [(''testing_init.sql'', sequence_sql)]))))
            (snd (snd (enter (init ''testing_sqlite.db'' (Some ''testing_init.sql''))
                (fresh_world [(''testing_init.sql'', sequence_sql)]))))) = Inr False
   \<and> fst (is_empty_db (init ''testing_sqlite.db'' None) (fresh_world [])) = Inl AttributeError"
  by code_simp

subsection \<open>Closing\<close>

lemma exit_fields:
  "(case exit h w of (r, h', w') \<Rightarrow> r = Inr () \<and> connection h' = None \<and> cursor h' = None
      \<and> db_file_name h' = db_file_name h \<and> init_script_file_name h' = init_script_file_name h)"
  by (simp add: exit_def split: option.splits prod.splits)

lemma exit_closed:
  "connection h = None \<Longrightarrow> cursor h = None \<Longrightarrow> exit h w = (Inr (), h, w)"
  by (simp add: exit_def)

lemma run_close_closed:
  "connection h = None \<Longrightarrow> cursor h = None \<Longrightarrow> run (replicate n Close) h w = (h, w)"
  by (induction n) (simp_all add: exit_closed)

lemma exit_trace:
  "trace (snd (snd (exit h w))) =
     trace w @ (case cursor h of None \<Rightarrow> [] | Some k \<Rightarrow> [EvCursorClose k])
             @ (case connection h of None \<Rightarrow> [] | Some c \<Rightarrow> [EvConnectionClose c])"
  by (simp add: exit_def cursor_close_def connection_close_def emit_def split: option.splits)

lemma exit_releases:
  "(case cursor h of None \<Rightarrow> True | Some k \<Rightarrow> cursors (snd (snd (exit h w))) k = None) \<and>
   (case connection h of None \<Rightarrow> True | Some c \<Rightarrow> conns (snd (snd (exit h w))) c = None)"
  by (simp add: exit_def cursor_close_def connection_close_def emit_def split: option.splits)

text \<open>
  Claim C5. \<^verbatim>\<open>__exit__\<close> never raises and leaves \<^verbatim>\<open>connection\<close> and \<^verbatim>\<open>cursor\<close> at \<^verbatim>\<open>None\<close>.
  What it adds to the trace is the close of the cursor, if there was one, and then the close
  of the connection, if there was one, and both are gone from the engine afterwards.
  Closing again changes neither the instance nor the world, and any number of closes in a
  row has the effect of one.
\<close>

theorem exit_releases_and_is_idempotent:
  "fst (exit h w) = Inr ()
   \<and> connection (fst (snd (exit h w))) = None
   \<and> cursor (fst (snd (exit h w))) = None
   \<and> trace (snd (snd (exit h w))) =
       trace w @ (case cursor h of None \<Rightarrow> [] | Some k \<Rightarrow> [EvCursorClose k])
               @ (case connection h of None \<Rightarrow> [] | Some c \<Rightarrow> [EvConnectionClose c])
   \<and> (case cursor h of None \<Rightarrow> True | Some k \<Rightarrow> cursors (snd (snd (exit h w))) k = None)
   \<and> (case connection h of None \<Rightarrow> True | Some c \<Rightarrow> conns (snd (snd (exit h w))) c = None)
   \<and> exit (fst (snd (exit h w))) (snd (snd (exit h w))) =
       (Inr (), fst (snd (exit h w)), snd (snd (exit h w)))
   \<and> run (replicate (Suc n) Close) h w = run [Close] h w"
proof -
  obtain r h1 w1 where e: "exit h w = (r, h1, w1)" by (cases "exit h w") auto
  with exit_fields [of h w] have f: "r = Inr ()" "connection h1 = None" "cursor h1 = None"
    by simp_all
  have "run (replicate (Suc n) Close) h w = run (replicate n Close) h1 w1"
    by (simp add: e)
  also have "\<dots> = (h1, w1)" by (rule run_close_closed [OF f(2,3)])
  finally have "run (replicate (Suc n) Close) h w = run [Close] h w" by (simp add: e)
  moreover have "exit h1 w1 = (Inr (), h1, w1)" by (rule exit_closed [OF f(2,3)])
  ultimately show ?thesis
    using exit_trace [of h w] exit_releases [of h w] f by (simp add: e)
qed

subsection \<open>Opening\<close>

lemma connect_fail:
  "\<not> can_connect w name \<Longrightarrow>
   sqlite3_connect name w =
     (Inl (OperationalError ''unable to open database file''), emit (EvConnect name) w)"
  by (simp add: sqlite3_connect_def can_connect_def is_private_def Let_def)

lemma connect_ok:
  "can_connect w name \<Longrightarrow>
   \<exists>w1. sqlite3_connect name w = (Inr (next_id w), w1) \<and>
        connection_cursor (next_id w) w1 = (Inr (Suc (next_id w)), connected name w)"
  by (auto simp add: sqlite3_connect_def connection_cursor_def can_connect_def is_private_def
      connected_def emit_def opened_db_def loc_of_def Let_def)

lemma live_connected:
  "live_cursor (connected name w) (Suc (next_id w)) =
     Inr (next_id w, \<lparr>target = loc_of w name, tx = None\<rparr>)"
  by (simp add: live_cursor_def connected_def)

lemma session_connected:
  "session_of (connected name w) \<lparr>target = loc_of w name, tx = None\<rparr> = fresh_session w name"
  by (simp add: session_of_def connected_def content_def fresh_session_def)

lemma put_session_same:
  "put_session (next_id w) \<lparr>target = loc_of w name, tx = None\<rparr> (fresh_session w name)
     (emit e (connected name w)) = emit e (connected name w)"
  by (simp add: put_session_def emit_def connected_def fresh_session_def)

lemma is_empty_db_connected:
  "cursor h2 = Some (Suc (next_id w)) \<Longrightarrow>
   is_empty_db h2 (connected name w) =
     (Inr (count_tables (opened_db w name) = 0),
      emit (EvExecute Q_COUNT_TABLES []) (connected name w))"
  by (simp add: is_empty_db_live [OF _ live_connected] session_connected put_session_same)
    (simp add: fresh_session_def current_def)

lemma files_emit: "files (emit e w) = files w"
  by (simp add: emit_def)

lemma files_connected: "files (connected name w) = files w"
  by (simp add: connected_def)

lemma execute_file_connected:
  "cursor h2 = Some (Suc (next_id w)) \<Longrightarrow>
   execute_file h2 f (emit e (connected name w)) =
     (case files w f of
        None \<Rightarrow> (Inl (FileNotFoundError f), emit (EvOpenFile f) (emit e (connected name w)))
      | Some text \<Rightarrow>
          (case run_script (statements text) (fresh_session w name) of
             (r, s) \<Rightarrow>
               (r, put_session (next_id w) \<lparr>target = loc_of w name, tx = None\<rparr> s
                     (emit (EvExecuteScript text)
                        (emit (EvOpenFile f) (emit e (connected name w)))))))"
  by (simp add: execute_file_def read_file_def files_emit files_connected
      cursor_executescript_def live_emit live_connected session_emit session_connected
      commit_pending_def fresh_session_def split: option.splits)

text \<open>\<^verbatim>\<open>__enter__\<close> when the connect fails, and when it succeeds.\<close>

lemma enter_fail_connect:
  "\<not> can_connect w (db_file_name h) \<Longrightarrow>
   enter h w = (Inl (OperationalError ''unable to open database file''), h,
                emit (EvConnect (db_file_name h)) w)"
  by (simp add: enter_def connect_fail)

lemma enter_connected:
  assumes "can_connect w (db_file_name h)"
  shows "enter h w =
    (let name = db_file_name h;
         h2 = h\<lparr>connection := Some (next_id w), cursor := Some (Suc (next_id w))\<rparr>;
         w2 = connected name w;
         w3 = emit (EvExecute Q_COUNT_TABLES []) w2
     in case init_script_file_name h of
          None \<Rightarrow> (Inr (), h2, w2)
        | Some f \<Rightarrow>
            if f = [] then (Inr (), h2, w2)
            else if count_tables (opened_db w name) = 0 then
              (case files w f of
                 None \<Rightarrow> (Inl (FileNotFoundError f), h2, emit (EvOpenFile f) w3)
               | Some text \<Rightarrow>
                   (case run_script (statements text) (fresh_session w name) of
                      (r, s) \<Rightarrow>
                        (r, h2, put_session (next_id w) \<lparr>target = loc_of w name, tx = None\<rparr> s
                                  (emit (EvExecuteScript text) (emit (EvOpenFile f) w3)))))
            else (Inr (), h2, w3))"
proof -
  from connect_ok [OF assms] obtain w1 where
    c: "sqlite3_connect (db_file_name h) w = (Inr (next_id w), w1)" and
    k: "connection_cursor (next_id w) w1 = (Inr (Suc (next_id w)), connected (db_file_name h) w)"
    by blast
  show ?thesis
    by (simp add: enter_def c k Let_def is_empty_db_connected execute_file_connected
        split: option.splits prod.splits sum.splits)
qed

lemma enter_result:
  "fst (enter h w) =
     (if can_connect w (db_file_name h) then
        (case init_script_file_name h of
           None \<Rightarrow> Inr ()
         | Some f \<Rightarrow>
             if f = [] \<or> 0 < count_tables (opened_db w (db_file_name h)) then Inr ()
             else (case files w f of
                     None \<Rightarrow> Inl (FileNotFoundError f)
                   | Some text \<Rightarrow>
                       fst (run_script (statements text) (fresh_session w (db_file_name h)))))
      else Inl (OperationalError ''unable to open database file''))"
  by (simp add: enter_connected enter_fail_connect Let_def split: option.splits prod.splits)

lemma trace_put_session: "trace (put_session c cn s w) = trace w"
  by (simp add: put_session_def)

lemma trace_emit: "trace (emit e w) = trace w @ [e]"
  by (simp add: emit_def)

lemma trace_connected:
  "trace (connected name w) = trace w @ [EvConnect name, EvCursor (next_id w)]"
  by (simp add: connected_def)

lemma enter_trace: "trace (snd (snd (enter h w))) = trace w @ enter_events h w"
proof (cases "can_connect w (db_file_name h)")
  case True
  then show ?thesis
    by (simp add: enter_connected enter_events_def Let_def trace_put_session trace_emit
        trace_connected split: option.splits prod.splits)
next
  case False
  then show ?thesis
    by (simp add: enter_fail_connect enter_events_def trace_emit)
qed

lemma is_open_emit: "is_open h (emit e w) = is_open h w"
  by (simp add: is_open_def emit_def split: option.splits)

lemma is_open_connected:
  "is_open (h\<lparr>connection := Some (next_id w), cursor := Some (Suc (next_id w))\<rparr>)
     (connected name w)"
  by (simp add: is_open_def connected_def)

lemma is_open_put_session: "is_open h w \<Longrightarrow> is_open h (put_session c cn s w)"
  by (auto simp add: is_open_def put_session_def split: option.splits)

lemma enter_open:
  "can_connect w (db_file_name h) \<Longrightarrow>
   (case enter h w of (r, h', w') \<Rightarrow>
      connection h' = Some (next_id w) \<and> cursor h' = Some (Suc (next_id w)) \<and> is_open h' w')"
  by (simp add: enter_connected Let_def is_open_emit is_open_connected is_open_put_session
      split: option.splits prod.splits)

subsection \<open>The state invariant\<close>

lemma enter_consistent:
  "consistent h w \<Longrightarrow> (case enter h w of (r, h', w') \<Rightarrow> consistent h' w')"
proof (cases "can_connect w (db_file_name h)")
  case True
  from enter_open [OF True] show ?thesis
    by (auto simp add: consistent_def split: prod.splits)
next
  case False
  assume "consistent h w"
  with False show ?thesis
    by (simp add: enter_fail_connect consistent_def is_open_emit)
qed

lemma exit_consistent: "(case exit h w of (r, h', w') \<Rightarrow> consistent h' w')"
  using exit_fields [of h w] by (auto simp add: consistent_def is_open_def split: prod.splits)

lemma run_consistent:
  "consistent h w \<Longrightarrow> (case run ops h w of (h', w') \<Rightarrow> consistent h' w')"
proof (induction ops arbitrary: h w)
  case Nil
  then show ?case by simp
next
  case (Cons a ops)
  show ?case
  proof (cases a)
    case Open
    obtain r h1 w1 where e: "enter h w = (r, h1, w1)" by (cases "enter h w") auto
    with enter_consistent [OF Cons.prems] have "consistent h1 w1" by simp
    from Cons.IH [OF this] show ?thesis by (simp add: Open e)
  next
    case Close
    obtain r h1 w1 where e: "exit h w = (r, h1, w1)" by (cases "exit h w") auto
    with exit_consistent [of h w] have "consistent h1 w1" by simp
    from Cons.IH [OF this] show ?thesis by (simp add: Close e)
  qed
qed

text \<open>
  Claim C6. \<^verbatim>\<open>__init__\<close> computes the instance from its two arguments alone (it has no
  access to the world), with \<^verbatim>\<open>connection\<close> and \<^verbatim>\<open>cursor\<close> at \<^verbatim>\<open>None\<close>, so the new instance
  is closed. After any sequence of opens and closes from there, in any world and whether or
  not the opens succeed, \<^verbatim>\<open>connection\<close> is set exactly when the instance is open, and
  \<^verbatim>\<open>cursor\<close> is \<^verbatim>\<open>None\<close> exactly when \<^verbatim>\<open>connection\<close> is.
\<close>

theorem state_invariant:
  "(case run ops (init name script) w of
      (h, w') \<Rightarrow>
        (connection h \<noteq> None) = is_open h w' \<and> (cursor h = None) = (connection h = None))
   \<and> init name script =
       \<lparr>db_file_name = name, init_script_file_name = script, connection = None, cursor = None\<rparr>
   \<and> \<not> is_open (init name script) w"
proof -
  have "consistent (init name script) w"
    by (simp add: consistent_def init_def is_open_def)
  from run_consistent [OF this, of ops] show ?thesis
    by (auto simp add: consistent_def init_def is_open_def split: prod.splits)
qed

subsection \<open>What opening does, in order\<close>

lemma newly_created_empty: "newly_created w name \<Longrightarrow> opened_db w name = []"
  by (auto simp add: newly_created_def opened_db_def content_def)

lemma enter_success_can_connect: "fst (enter h w) = Inr () \<Longrightarrow> can_connect w (db_file_name h)"
  by (simp add: enter_result split: if_splits)

lemma view_enter_script:
  assumes "can_connect w (db_file_name h)" "init_script_file_name h = Some f" "f \<noteq> []"
    "count_tables (opened_db w (db_file_name h)) = 0" "files w f = Some text"
    "run_script (statements text) (fresh_session w (db_file_name h)) = (r, s)"
  shows "fst (enter h w) = r
    \<and> view (fst (snd (enter h w))) (snd (snd (enter h w))) = Some (current s)"
proof -
  let ?h2 = "h\<lparr>connection := Some (next_id w), cursor := Some (Suc (next_id w))\<rparr>"
  have k: "cursor ?h2 = Some (Suc (next_id w))" by simp
  have l: "live_cursor (emit (EvExecuteScript text) (emit (EvOpenFile f)
        (emit (EvExecute Q_COUNT_TABLES []) (connected (db_file_name h) w)))) (Suc (next_id w)) =
      Inr (next_id w, \<lparr>target = loc_of w (db_file_name h), tx = None\<rparr>)"
    by (simp add: live_emit live_connected)
  show ?thesis
    using assms by (simp add: enter_connected Let_def view_put_session [OF k l])
qed

text \<open>
  Claim C2, as amended. When \<^verbatim>\<open>__enter__\<close> returns normally it has, in this order,
  connected, obtained a cursor and then, only if an init script is configured (a name that
  is neither \<^verbatim>\<open>None\<close> nor empty), run the empty check and, if the database has no table,
  opened the script file and handed its whole text to the engine. The instance is then open.
  For a newly created database with a configured script, every statement of the script has
  run, from the empty database, and the cursor sees the result.
\<close>

theorem enter_order:
  "fst (enter h w) = Inr () \<longrightarrow>
     trace (snd (snd (enter h w))) =
       trace w @ [EvConnect (db_file_name h), EvCursor (next_id w)] @
       (case init_script_file_name h of
          None \<Rightarrow> []
        | Some f \<Rightarrow>
            if f = [] then []
            else EvExecute Q_COUNT_TABLES [] #
                 (if count_tables (opened_db w (db_file_name h)) = 0 then
                    (case files w f of
                       None \<Rightarrow> []
                     | Some text \<Rightarrow> [EvOpenFile f, EvExecuteScript text])
                  else []))
     \<and> is_open (fst (snd (enter h w))) (snd (snd (enter h w)))
     \<and> (\<forall>f. init_script_file_name h = Some f \<and> f \<noteq> [] \<and> newly_created w (db_file_name h) \<longrightarrow>
           (\<exists>text s. files w f = Some text
              \<and> run_script (statements text) \<lparr>committed = [], pending = None\<rparr> = (Inr (), s)
              \<and> view (fst (snd (enter h w))) (snd (snd (enter h w))) = Some (current s)))"
proof (intro impI conjI allI)
  assume ok: "fst (enter h w) = Inr ()"
  then have cc: "can_connect w (db_file_name h)" by (rule enter_success_can_connect)
  from ok show "trace (snd (snd (enter h w))) =
       trace w @ [EvConnect (db_file_name h), EvCursor (next_id w)] @
       (case init_script_file_name h of
          None \<Rightarrow> []
        | Some f \<Rightarrow>
            if f = [] then []
            else EvExecute Q_COUNT_TABLES [] #
                 (if count_tables (opened_db w (db_file_name h)) = 0 then
                    (case files w f of
                       None \<Rightarrow> []
                     | Some text \<Rightarrow> [EvOpenFile f, EvExecuteScript text])
                  else []))"
    by (simp add: enter_trace enter_events_def cc)
      (auto simp add: enter_result cc split: option.splits if_splits)
  from enter_open [OF cc] show "is_open (fst (snd (enter h w))) (snd (snd (enter h w)))"
    by (simp split: prod.splits)
  fix f
  assume a: "init_script_file_name h = Some f \<and> f \<noteq> [] \<and> newly_created w (db_file_name h)"
  then have e: "opened_db w (db_file_name h) = []" by (simp add: newly_created_empty)
  then have z: "count_tables (opened_db w (db_file_name h)) = 0" by (simp add: count_tables_def)
  from ok a z cc obtain script where t: "files w f = Some script"
    by (auto simp add: enter_result split: option.splits)
  obtain r s where rs: "run_script (statements script) (fresh_session w (db_file_name h)) = (r, s)"
    by (cases "run_script (statements script) (fresh_session w (db_file_name h))") auto
  from a have "init_script_file_name h = Some f" "f \<noteq> []" by simp_all
  from view_enter_script [OF cc this z t rs] ok
  have "r = Inr ()" "view (fst (snd (enter h w))) (snd (snd (enter h w))) = Some (current s)"
    by simp_all
  with rs t e show "\<exists>text s. files w f = Some text
              \<and> run_script (statements text) \<lparr>committed = [], pending = None\<rparr> = (Inr (), s)
              \<and> view (fst (snd (enter h w))) (snd (snd (enter h w))) = Some (current s)"
    by (auto simp add: fresh_session_def)
qed

theorem enter_order_witness:
  "fst (enter (init ''testing_sqlite.db'' (Some ''testing_init.sql''))
         (fresh_world [(''testing_init.sql'', points_sql)])) = Inr ()
   \<and> trace (snd (snd (enter (init ''testing_sqlite.db'' (Some ''testing_init.sql''))
         (fresh_world [(''testing_init.sql'', points_sql)])))) =
       [EvConnect ''testing_sqlite.db'', EvCursor 0, EvExecute Q_COUNT_TABLES [],
        EvOpenFile ''testing_init.sql'', EvExecuteScript points_sql]
   \<and> view (fst (snd (enter (init ''testing_sqlite.db'' (Some ''testing_init.sql''))
         (fresh_world [(''testing_init.sql'', points_sql)]))))
        (snd (snd (enter (init ''testing_sqlite.db'' (Some ''testing_init.sql''))
         (fresh_world [(''testing_init.sql'', points_sql)])))) = Some [Table ''test_points'' 3]"
proof -
  let ?h = "init ''testing_sqlite.db'' (Some ''testing_init.sql'')"
  let ?w = "fresh_world [(''testing_init.sql'', points_sql)]"
  have ok: "fst (enter ?h ?w) = Inr ()" by code_simp
  have v: "view (fst (snd (enter ?h ?w))) (snd (snd (enter ?h ?w))) =
      Some [Table ''test_points'' 3]"
    by code_simp
  have c: "count_tables (opened_db ?w ''testing_sqlite.db'') = 0" by code_simp
  have f: "files ?w ''testing_init.sql'' = Some points_sql" by (simp add: fresh_world_def)
  have i: "init_script_file_name ?h = Some ''testing_init.sql''"
    "db_file_name ?h = ''testing_sqlite.db''"
    by (simp_all add: init_def)
  have n: "next_id ?w = 0" "trace ?w = []" by (simp_all add: fresh_world_def)
  from enter_order [of ?h ?w] ok
  have "trace (snd (snd (enter ?h ?w))) =
       [EvConnect ''testing_sqlite.db'', EvCursor 0, EvExecute Q_COUNT_TABLES [],
        EvOpenFile ''testing_init.sql'', EvExecuteScript points_sql]"
    by (simp add: c f i n)
  with ok v show ?thesis by simp
qed

text \<open>
  Claim C2 as stated has the empty check among the steps of every open. With no init
  script the open succeeds and the engine is asked nothing: the trace is the connect and the
  cursor call.
\<close>

theorem enter_skips_empty_check_counterexample:
  "fst (enter (init ''testing_sqlite.db'' None) (fresh_world [])) = Inr ()
   \<and> trace (snd (snd (enter (init ''testing_sqlite.db'' None) (fresh_world [])))) =
       [EvConnect ''testing_sqlite.db'', EvCursor 0]"
  by code_simp

subsection \<open>The pragma constants\<close>

lemma submitted_append: "submitted (xs @ ys) = submitted xs @ submitted ys"
  by (induction xs rule: submitted.induct) simp_all

lemma script_runs_append: "script_runs (xs @ ys) = script_runs xs + script_runs ys"
  by (induction xs rule: script_runs.induct) simp_all

text \<open>
  Claim C3, as amended. The pragma settings exist only as the class constants
  \<open>PRAGMAS\<close> and \<open>PRAGMAS_PER_CONNECTION\<close>; \<^verbatim>\<open>__enter__\<close> does not submit them. The texts it
  gives the engine are the table-count query, when an init script is configured and the
  connect succeeded, and then the text of the script file, when the database has no table.
  So without an init script an open leaves the pragmas as applied as they were before.
\<close>

theorem enter_submits_no_pragma:
  "submitted (trace (snd (snd (enter h w)))) =
     submitted (trace w) @
     (case init_script_file_name h of
        None \<Rightarrow> []
      | Some f \<Rightarrow>
          if can_connect w (db_file_name h) \<and> f \<noteq> [] then
            Q_COUNT_TABLES #
            (if count_tables (opened_db w (db_file_name h)) = 0 then
               (case files w f of None \<Rightarrow> [] | Some text \<Rightarrow> [text])
             else [])
          else [])
   \<and> (init_script_file_name h = None \<longrightarrow>
        pragmas_applied (trace (snd (snd (enter h w)))) = pragmas_applied (trace w))"
proof -
  have s: "submitted (trace (snd (snd (enter h w)))) =
     submitted (trace w) @
     (case init_script_file_name h of
        None \<Rightarrow> []
      | Some f \<Rightarrow>
          if can_connect w (db_file_name h) \<and> f \<noteq> [] then
            Q_COUNT_TABLES #
            (if count_tables (opened_db w (db_file_name h)) = 0 then
               (case files w f of None \<Rightarrow> [] | Some text \<Rightarrow> [text])
             else [])
          else [])"
    by (simp add: enter_trace submitted_append enter_events_def split: option.splits)
  then show ?thesis
    by (simp add: pragmas_applied_def received_def)
qed

theorem enter_submits_no_pragma_witness:
  "init_script_file_name (init ''testing_sqlite.db'' None) = None
   \<and> submitted (trace (snd (snd (enter (init ''testing_sqlite.db'' None) (fresh_world []))))) = []
   \<and> \<not> pragmas_applied
         (trace (snd (snd (enter (init ''testing_sqlite.db'' None) (fresh_world [])))))"
proof -
  have i: "init_script_file_name (init ''testing_sqlite.db'' None) = None"
    by (simp add: init_def)
  have t: "trace (fresh_world []) = []" by (simp add: fresh_world_def)
  have p: "\<not> pragmas_applied []" by code_simp
  from enter_submits_no_pragma [of "init ''testing_sqlite.db'' None" "fresh_world []"] i t p
  show ?thesis by simp
qed

text \<open>
  Claim C3 as stated fails: the test suite's open of a new file with its init script
  succeeds, and none of the six pragma statements has reached the engine.
\<close>

theorem pragmas_not_applied_counterexample:
  "fst (enter (init ''testing_sqlite.db'' (Some ''testing_init.sql''))
         (fresh_world [(''testing_init.sql'', points_sql)])) = Inr ()
   \<and> \<not> pragmas_applied
        (trace (snd (snd (enter (init ''testing_sqlite.db'' (Some ''testing_init.sql''))
           (fresh_world [(''testing_init.sql'', points_sql)])))))"
  by code_simp

subsection \<open>A failing open\<close>

lemma filter_close_enter: "filter is_close (enter_events h w) = []"
  by (simp add: enter_events_def split: option.splits)

text \<open>
  Claim C4, as amended. \<^verbatim>\<open>__enter__\<close> has no handler. When it fails after the connect was
  made, the exception leaves it with \<^verbatim>\<open>connection\<close> and \<^verbatim>\<open>cursor\<close> assigned and live: the
  instance is open, nothing was closed, and it is a later \<^verbatim>\<open>__exit__\<close> that releases the
  connection. In particular, when a statement of the init script fails, the engine's error
  for that statement is the error of the open, and what the statements before it did is in
  the database.
\<close>

theorem failed_enter_stays_open:
  "(can_connect w (db_file_name h) \<and> fst (enter h w) = Inl e \<longrightarrow>
      connection (fst (snd (enter h w))) = Some (next_id w)
      \<and> cursor (fst (snd (enter h w))) = Some (Suc (next_id w))
      \<and> is_open (fst (snd (enter h w))) (snd (snd (enter h w)))
      \<and> filter is_close (trace (snd (snd (enter h w)))) = filter is_close (trace w)
      \<and> conns (snd (snd (exit (fst (snd (enter h w))) (snd (snd (enter h w))))))
           (next_id w) = None)
   \<and> (can_connect w (db_file_name h) \<and> init_script_file_name h = Some f \<and> f \<noteq> []
        \<and> count_tables (opened_db w (db_file_name h)) = 0 \<and> files w f = Some text
        \<and> run_script (statements text) (fresh_session w (db_file_name h)) = (Inl e, s) \<longrightarrow>
      fst (enter h w) = Inl e
      \<and> view (fst (snd (enter h w))) (snd (snd (enter h w))) = Some (current s))"
proof (intro conjI impI)
  assume a: "can_connect w (db_file_name h) \<and> fst (enter h w) = Inl e"
  then have cc: "can_connect w (db_file_name h)" by simp
  from enter_open [OF cc]
  show c: "connection (fst (snd (enter h w))) = Some (next_id w)"
    and "cursor (fst (snd (enter h w))) = Some (Suc (next_id w))"
    and "is_open (fst (snd (enter h w))) (snd (snd (enter h w)))"
    by (simp_all split: prod.splits)
  show "filter is_close (trace (snd (snd (enter h w)))) = filter is_close (trace w)"
    by (simp add: enter_trace filter_close_enter)
  from exit_releases [of "fst (snd (enter h w))" "snd (snd (enter h w))"] c
  show "conns (snd (snd (exit (fst (snd (enter h w))) (snd (snd (enter h w))))))
      (next_id w) = None"
    by simp
next
  assume "can_connect w (db_file_name h) \<and> init_script_file_name h = Some f \<and> f \<noteq> []
        \<and> count_tables (opened_db w (db_file_name h)) = 0 \<and> files w f = Some text
        \<and> run_script (statements text) (fresh_session w (db_file_name h)) = (Inl e, s)"
  then have "can_connect w (db_file_name h)" "init_script_file_name h = Some f" "f \<noteq> []"
    "count_tables (opened_db w (db_file_name h)) = 0" "files w f = Some text"
    "run_script (statements text) (fresh_session w (db_file_name h)) = (Inl e, s)"
    by simp_all
  from view_enter_script [OF this]
  show "fst (enter h w) = Inl e"
    and "view (fst (snd (enter h w))) (snd (snd (enter h w))) = Some (current s)"
    by simp_all
qed

theorem failed_enter_stays_open_witness:
  "can_connect (fresh_world [(''testing_init.sql'', broken_sql)]) ''testing_sqlite.db''
   \<and> fst (enter (init ''testing_sqlite.db'' (Some ''testing_init.sql''))
         (fresh_world [(''testing_init.sql'', broken_sql)])) =
       Inl (OperationalError ''no such table: b'')
   \<and> view (fst (snd (enter (init ''testing_sqlite.db'' (Some ''testing_init.sql''))
         (fresh_world [(''testing_init.sql'', broken_sql)]))))
        (snd (snd (enter (init ''testing_sqlite.db'' (Some ''testing_init.sql''))
         (fresh_world [(''testing_init.sql'', broken_sql)])))) = Some [Table ''a'' 0]
   \<and> is_open (fst (snd (enter (init ''testing_sqlite.db'' (Some ''testing_init.sql''))
         (fresh_world [(''testing_init.sql'', broken_sql)]))))
        (snd (snd (enter (init ''testing_sqlite.db'' (Some ''testing_init.sql''))
         (fresh_world [(''testing_init.sql'', broken_sql)]))))"
proof -
  let ?h = "init ''testing_sqlite.db'' (Some ''testing_init.sql'')"
  let ?w = "fresh_world [(''testing_init.sql'', broken_sql)]"
  let ?e = "OperationalError ''no such table: b''"
  let ?s = "\<lparr>committed = [Table ''a'' 0], pending = None\<rparr>"
  have n: "db_file_name ?h = ''testing_sqlite.db''"
    "init_script_file_name ?h = Some ''testing_init.sql''"
    by (simp_all add: init_def)
  have cc: "can_connect ?w ''testing_sqlite.db''" by code_simp
  have z: "count_tables (opened_db ?w ''testing_sqlite.db'') = 0" by code_simp
  have f: "files ?w ''testing_init.sql'' = Some broken_sql" by (simp add: fresh_world_def)
  have r: "run_script (statements broken_sql) (fresh_session ?w ''testing_sqlite.db'') =
      (Inl ?e, ?s)"
    by code_simp
  from failed_enter_stays_open [of ?w ?h ?e "''testing_init.sql''" broken_sql ?s] n cc z f r
  have "fst (enter ?h ?w) = Inl ?e"
    "view (fst (snd (enter ?h ?w))) (snd (snd (enter ?h ?w))) = Some [Table ''a'' 0]"
    "is_open (fst (snd (enter ?h ?w))) (snd (snd (enter ?h ?w)))"
    by (simp_all add: current_def)
  with cc show ?thesis by simp
qed

text \<open>
  Claim C4 as stated fails: the second statement of the script is rejected, the open raises
  the engine's error, and the connection made by that open is still live and still held by
  the instance; no close was called.
\<close>

theorem failed_enter_leaks_counterexample:
  "fst (enter (init ''testing_sqlite.db'' (Some ''testing_init.sql''))
         (fresh_world [(''testing_init.sql'', broken_sql)])) =
     Inl (OperationalError ''no such table: b'')
   \<and> connection (fst (snd (enter (init ''testing_sqlite.db'' (Some ''testing_init.sql''))
         (fresh_world [(''testing_init.sql'', broken_sql)])))) = Some 0
   \<and> is_open (fst (snd (enter (init ''testing_sqlite.db'' (Some ''testing_init.sql''))
         (fresh_world [(''testing_init.sql'', broken_sql)]))))
        (snd (snd (enter (init ''testing_sqlite.db'' (Some ''testing_init.sql''))
         (fresh_world [(''testing_init.sql'', broken_sql)]))))
   \<and> filter is_close
        (trace (snd (snd (enter (init ''testing_sqlite.db'' (Some ''testing_init.sql''))
           (fresh_world [(''testing_init.sql'', broken_sql)]))))) = []"
  by code_simp

subsection \<open>A database without tables\<close>


lemma opened_db_file: "\<not> is_private name \<Longrightarrow> opened_db w name = db_of w name"
  by (simp add: opened_db_def db_of_def)



subsection \<open>When the init script runs\<close>

lemma loc_of_file: "\<not> is_private name \<Longrightarrow> loc_of w name = File name"
  by (simp add: loc_of_def)

lemma lookup_counted:
  "count_rows d t = Some n \<Longrightarrow> \<exists>m. lookup_obj d t = Some (Table m n)"
  by (auto simp add: count_rows_def split: option.splits object.splits)

lemma count_tables_counted: "count_rows d t = Some n \<Longrightarrow> 0 < count_tables d"
proof -
  assume "count_rows d t = Some n"
  from lookup_counted [OF this] obtain m where
    "find (\<lambda>ob. obj_name ob = t) d = Some (Table m n)"
    by (auto simp add: lookup_obj_def)
  then have "Table m n \<in> set d"
    by (auto simp add: find_Some_iff)
  then have "\<exists>x\<in>set d. is_table x"
    by (rule bexI [rotated]) (simp add: is_table_simps)
  then have "filter is_table d \<noteq> []"
    by (simp add: filter_empty_conv)
  then show ?thesis by (simp add: count_tables_def)
qed

lemma count_rows_add_rows:
  "count_rows d t = Some n \<Longrightarrow> count_rows (add_rows t k d) t = Some (n + k)"
proof (induction d)
  case Nil
  then show ?case by (simp add: count_rows_def lookup_obj_def)
next
  case (Cons ob d)
  show ?case
  proof (cases "obj_name ob = t")
    case True
    with Cons.prems show ?thesis
      by (cases ob) (simp_all add: count_rows_def lookup_obj_def)
  next
    case False
    with Cons.prems have "count_rows d t = Some n"
      by (simp add: count_rows_def lookup_obj_def)
    from Cons.IH [OF this] False show ?thesis
      by (cases ob) (simp_all add: count_rows_def lookup_obj_def)
  qed
qed

lemma db_of_emit: "db_of (emit e w) name = db_of w name"
  by (simp add: db_of_def content_def emit_def)

lemma db_of_connected: "\<not> is_private name \<Longrightarrow> db_of (connected name w) name = db_of w name"
  by (simp add: db_of_def content_def connected_def loc_of_file opened_db_def)

lemma db_of_put_session:
  "target cn = File name \<Longrightarrow> db_of (put_session c cn s w) name = committed s"
  by (simp add: db_of_def content_def put_session_def)

lemma db_of_exit: "db_of (snd (snd (exit h w))) name = db_of w name"
  by (simp add: exit_def db_of_def content_def cursor_close_def connection_close_def emit_def
      split: option.splits location.splits)

lemma script_runs_exit: "script_runs (trace (snd (snd (exit h w)))) = script_runs (trace w)"
  by (simp add: exit_trace script_runs_append split: option.splits)

lemma enter_names:
  "db_file_name (fst (snd (enter h w))) = db_file_name h
   \<and> init_script_file_name (fst (snd (enter h w))) = init_script_file_name h"
  by (cases "can_connect w (db_file_name h)")
    (simp_all add: enter_connected enter_fail_connect Let_def split: option.splits prod.splits)

lemma exit_names:
  "db_file_name (fst (snd (exit h w))) = db_file_name h
   \<and> init_script_file_name (fst (snd (exit h w))) = init_script_file_name h"
  using exit_fields [of h w] by (simp split: prod.splits)

lemma enter_script_runs:
  "script_runs (trace (snd (snd (enter h w)))) =
     script_runs (trace w) +
     (case init_script_file_name h of
        None \<Rightarrow> 0
      | Some f \<Rightarrow>
          if can_connect w (db_file_name h) \<and> f \<noteq> []
             \<and> count_tables (opened_db w (db_file_name h)) = 0 \<and> files w f \<noteq> None
          then 1 else 0)"
  by (auto simp add: enter_trace script_runs_append enter_events_def split: option.splits)

lemma enter_keeps:
  assumes "\<not> is_private (db_file_name h)" "0 < count_tables (db_of w (db_file_name h))"
  shows "script_runs (trace (snd (snd (enter h w)))) = script_runs (trace w)
    \<and> db_of (snd (snd (enter h w))) (db_file_name h) = db_of w (db_file_name h)"
proof (cases "can_connect w (db_file_name h)")
  case True
  with assms show ?thesis
    by (simp add: enter_script_runs opened_db_file split: option.splits)
      (simp add: enter_connected Let_def opened_db_file db_of_emit db_of_connected
        split: option.splits)
next
  case False
  then show ?thesis
    by (simp add: enter_script_runs split: option.splits)
      (simp add: enter_fail_connect db_of_emit)
qed

lemma run_keeps:
  "\<not> is_private (db_file_name h) \<Longrightarrow> 0 < count_tables (db_of w (db_file_name h)) \<Longrightarrow>
   script_runs (trace (snd (run ops h w))) = script_runs (trace w)
   \<and> db_of (snd (run ops h w)) (db_file_name h) = db_of w (db_file_name h)"
proof (induction ops arbitrary: h w)
  case Nil
  then show ?case by simp
next
  case (Cons a ops)
  show ?case
  proof (cases a)
    case Open
    obtain r h1 w1 where e: "enter h w = (r, h1, w1)" by (cases "enter h w") auto
    from enter_names [of h w] e have n: "db_file_name h1 = db_file_name h" by simp
    from enter_keeps [OF Cons.prems] e
    have k: "script_runs (trace w1) = script_runs (trace w)"
      "db_of w1 (db_file_name h) = db_of w (db_file_name h)"
      by simp_all
    from Cons.IH [of h1 w1] Cons.prems n k show ?thesis
      by (simp add: Open e)
  next
    case Close
    obtain r h1 w1 where e: "exit h w = (r, h1, w1)" by (cases "exit h w") auto
    from exit_names [of h w] e have n: "db_file_name h1 = db_file_name h" by simp
    from db_of_exit [of h w "db_file_name h"] script_runs_exit [of h w] e
    have k: "script_runs (trace w1) = script_runs (trace w)"
      "db_of w1 (db_file_name h) = db_of w (db_file_name h)"
      by simp_all
    from Cons.IH [of h1 w1] Cons.prems n k show ?thesis
      by (simp add: Close e)
  qed
qed

lemma live_put_session:
  "live_cursor w k = Inr (c, cn) \<Longrightarrow>
   live_cursor (put_session c cn s w) k = Inr (c, cn\<lparr>tx := pending s\<rparr>)"
  by (auto simp add: live_cursor_def put_session_def split: option.splits)

lemma session_put_session:
  "session_of (put_session c cn s w) (cn\<lparr>tx := pending s\<rparr>) = s"
  by (simp add: session_of_def put_session_def content_def)

lemma cursor_execute_insert:
  assumes "live_cursor w k = Inr (c, cn)" "statements q = [ts]"
    "parse_stmt ts = Inr (Insert t n)" "count_list ts ''?'' = length ps"
    "session_of w cn = \<lparr>committed = d, pending = None\<rparr>" "count_rows d t = Some m"
  shows "cursor_execute k q ps w =
    (Inr [], put_session c cn \<lparr>committed = d, pending = Some (add_rows t n d)\<rparr>
               (emit (EvExecute q ps) w))"
proof -
  from lookup_counted [OF assms(6)] obtain x where "lookup_obj d t = Some (Table x m)"
    by blast
  with assms show ?thesis
    by (simp add: cursor_execute_def implicit_begin_def exec_stmt_def current_def store_def
        Let_def)
qed

lemma statements_commit: "statements Q_COMMIT = [[''COMMIT'']]"
  by code_simp

lemma parse_commit: "parse_stmt [''COMMIT''] = Inr Commit"
  by code_simp

lemma cursor_execute_commit:
  assumes "live_cursor w k = Inr (c, cn)" "session_of w cn = \<lparr>committed = d, pending = Some d'\<rparr>"
  shows "cursor_execute k Q_COMMIT [] w =
    (Inr [], put_session c cn \<lparr>committed = d', pending = None\<rparr> (emit (EvExecute Q_COMMIT []) w))"
  using assms
  by (simp add: cursor_execute_def statements_commit parse_commit implicit_begin_def
      exec_stmt_def Let_def)

lemma enter_initialises:
  assumes "\<not> is_private (db_file_name h)" "openable w (db_file_name h)"
    "init_script_file_name h = Some f" "f \<noteq> []" "db_of w (db_file_name h) = []"
    "files w f = Some text"
    "run_script (statements text) \<lparr>committed = [], pending = None\<rparr> = (Inr (), s)"
  shows "db_of (snd (snd (enter h w))) (db_file_name h) = committed s
    \<and> script_runs (trace (snd (snd (enter h w)))) = Suc (script_runs (trace w))"
proof -
  from assms have cc: "can_connect w (db_file_name h)" by (simp add: can_connect_def)
  from assms have z: "count_tables (opened_db w (db_file_name h)) = 0"
    by (simp add: opened_db_file count_tables_def)
  from assms have r: "run_script (statements text) (fresh_session w (db_file_name h)) = (Inr (), s)"
    by (simp add: fresh_session_def opened_db_file)
  from assms cc z r show ?thesis
    by (simp add: enter_script_runs)
      (simp add: enter_connected Let_def db_of_put_session loc_of_file)
qed

lemma enter_reopens:
  assumes "\<not> is_private (db_file_name h)" "openable w (db_file_name h)"
    "init_script_file_name h = Some f" "f \<noteq> []" "0 < count_tables (db_of w (db_file_name h))"
  shows "enter h w =
    (Inr (), h\<lparr>connection := Some (next_id w), cursor := Some (Suc (next_id w))\<rparr>,
     emit (EvExecute Q_COUNT_TABLES []) (connected (db_file_name h) w))"
proof -
  from assms have cc: "can_connect w (db_file_name h)" by (simp add: can_connect_def)
  from assms show ?thesis
    by (simp add: enter_connected [OF cc] Let_def opened_db_file)
qed

lemma enter_frame:
  "files (snd (snd (enter h w))) = files w \<and> openable (snd (snd (enter h w))) = openable w"
  by (cases "can_connect w (db_file_name h)")
    (simp_all add: enter_connected enter_fail_connect Let_def put_session_def emit_def
      connected_def split: option.splits prod.splits)

lemma exit_frame:
  "files (snd (snd (exit h w))) = files w \<and> openable (snd (snd (exit h w))) = openable w"
  by (simp add: exit_def cursor_close_def connection_close_def emit_def split: option.splits)

lemma reopen_scenario:
  assumes p: "\<not> is_private name" and o: "openable w name" and f: "f \<noteq> []"
    and e: "db_of w name = []" and t: "files w f = Some text"
    and r: "run_script (statements text) \<lparr>committed = [], pending = None\<rparr> = (Inr (), s)"
    and n: "count_rows (committed s) t = Some n"
    and q: "statements q = [ts]" "parse_stmt ts = Inr (Insert t 1)" "count_list ts ''?'' = 0"
  shows "count_rows (db_of (reopen_and_insert name f q w) name) t = Some (n + 1)
    \<and> script_runs (trace (reopen_and_insert name f q w)) = Suc (script_runs (trace w))"
proof -
  let ?h = "init name (Some f)"
  have i: "db_file_name ?h = name" "init_script_file_name ?h = Some f"
    by (simp_all add: init_def)
  obtain r1 h1 w1 where e1: "enter ?h w = (r1, h1, w1)" by (cases "enter ?h w") auto
  obtain r2 h2 w2 where e2: "exit h1 w1 = (r2, h2, w2)" by (cases "exit h1 w1") auto
  from enter_initialises [of ?h w f "text" s] p o f e t r i e1
  have a1: "db_of w1 name = committed s" "script_runs (trace w1) = Suc (script_runs (trace w))"
    by simp_all
  from enter_names [of ?h w] e1 i
  have n1: "db_file_name h1 = name" "init_script_file_name h1 = Some f" by simp_all
  from enter_frame [of ?h w] e1 o have o1: "openable w1 name" by simp
  from db_of_exit [of h1 w1 name] script_runs_exit [of h1 w1] e2 a1
  have a2: "db_of w2 name = committed s" "script_runs (trace w2) = Suc (script_runs (trace w))"
    by simp_all
  from exit_names [of h1 w1] e2 n1
  have n2: "db_file_name h2 = name" "init_script_file_name h2 = Some f" by simp_all
  from exit_frame [of h1 w1] e2 o1 have o2: "openable w2 name" by simp
  from count_tables_counted [OF n] a2 have c2: "0 < count_tables (db_of w2 name)" by simp
  let ?k = "Suc (next_id w2)"
  let ?c = "next_id w2"
  let ?cn = "\<lparr>target = File name, tx = None\<rparr>"
  let ?h3 = "h2\<lparr>connection := Some ?c, cursor := Some ?k\<rparr>"
  let ?w3 = "emit (EvExecute Q_COUNT_TABLES []) (connected name w2)"
  from enter_reopens [of h2 w2 f] p o2 n2 f c2
  have e3: "enter h2 w2 = (Inr (), ?h3, ?w3)" by simp
  have run: "run [Open, Close, Open] ?h w = (?h3, ?w3)"
    by (simp add: e1 e2 e3)
  have l3: "live_cursor ?w3 ?k = Inr (?c, ?cn)"
    using p live_connected [of name w2] by (simp add: live_emit loc_of_file)
  have s3: "session_of ?w3 ?cn = \<lparr>committed = committed s, pending = None\<rparr>"
    using p a2 session_connected [of name w2]
    by (simp add: session_emit loc_of_file fresh_session_def opened_db_file)
  let ?d = "add_rows t 1 (committed s)"
  let ?s4 = "\<lparr>committed = committed s, pending = Some ?d\<rparr>"
  let ?w4 = "put_session ?c ?cn ?s4 (emit (EvExecute q []) ?w3)"
  from cursor_execute_insert [OF l3 q(1) q(2) _ s3 n] q(3)
  have e4: "cursor_execute ?k q [] ?w3 = (Inr [], ?w4)" by simp
  have l3': "live_cursor (emit (EvExecute q []) ?w3) ?k = Inr (?c, ?cn)"
    using l3 by (simp add: live_emit)
  from live_put_session [OF l3', of ?s4]
  have l4: "live_cursor ?w4 ?k = Inr (?c, ?cn\<lparr>tx := Some ?d\<rparr>)" by simp
  from session_put_session [of ?c ?cn ?s4 "emit (EvExecute q []) ?w3"]
  have s4: "session_of ?w4 (?cn\<lparr>tx := Some ?d\<rparr>) = ?s4" by simp
  let ?w5 = "put_session ?c (?cn\<lparr>tx := Some ?d\<rparr>) \<lparr>committed = ?d, pending = None\<rparr>
               (emit (EvExecute Q_COMMIT []) ?w4)"
  from cursor_execute_commit [OF l4 s4]
  have e5: "commit ?h3 ?w4 = (Inr (), ?w5)" by (simp add: commit_def)
  have res: "reopen_and_insert name f q w = ?w5"
    unfolding reopen_and_insert_def run using e4 e5 by simp
  have "db_of ?w5 name = ?d" by (simp add: db_of_put_session)
  moreover have "script_runs (trace ?w5) = Suc (script_runs (trace w))"
    by (simp add: trace_put_session trace_emit trace_connected script_runs_append a2)
  ultimately show ?thesis
    using count_rows_add_rows [OF n, of 1] by (simp add: res)
qed

text \<open>
  Claim C1, as amended. One \<^verbatim>\<open>__enter__\<close> runs the init script once or not at all, and it
  runs it exactly when a script is configured (a name neither \<^verbatim>\<open>None\<close> nor empty), the
  connect succeeds, the database has no table at that moment and the script file can be
  read. A database file with at least one table is never initialised again, through any
  sequence of opens and closes. And after initialising a new file with a script that leaves
  a table of \<open>n\<close> rows, closing, reopening, inserting one row and committing, the table has
  \<open>n + 1\<close> rows and the script has run once.
\<close>

theorem init_script_runs_iff_no_table:
  "script_runs (trace (snd (snd (enter h w)))) =
     script_runs (trace w) +
     (case init_script_file_name h of
        None \<Rightarrow> 0
      | Some f \<Rightarrow>
          if can_connect w (db_file_name h) \<and> f \<noteq> []
             \<and> count_tables (opened_db w (db_file_name h)) = 0 \<and> files w f \<noteq> None
          then 1 else 0)
   \<and> (\<not> is_private (db_file_name h) \<and> 0 < count_tables (db_of w (db_file_name h)) \<longrightarrow>
        script_runs (trace (snd (run ops h w))) = script_runs (trace w)
        \<and> db_of (snd (run ops h w)) (db_file_name h) = db_of w (db_file_name h))
   \<and> (\<not> is_private name \<and> openable w name \<and> db_of w name = []
        \<and> f \<noteq> [] \<and> files w f = Some text
        \<and> run_script (statements text) \<lparr>committed = [], pending = None\<rparr> = (Inr (), s)
        \<and> count_rows (committed s) t = Some n
        \<and> statements q = [ts] \<and> parse_stmt ts = Inr (Insert t 1) \<and> count_list ts ''?'' = 0 \<longrightarrow>
        count_rows (db_of (reopen_and_insert name f q w) name) t = Some (n + 1)
        \<and> script_runs (trace (reopen_and_insert name f q w)) = Suc (script_runs (trace w)))"
proof (intro conjI impI)
  show "script_runs (trace (snd (snd (enter h w)))) =
     script_runs (trace w) +
     (case init_script_file_name h of
        None \<Rightarrow> 0
      | Some f \<Rightarrow>
          if can_connect w (db_file_name h) \<and> f \<noteq> []
             \<and> count_tables (opened_db w (db_file_name h)) = 0 \<and> files w f \<noteq> None
          then 1 else 0)"
    by (rule enter_script_runs)
next
  assume "\<not> is_private (db_file_name h) \<and> 0 < count_tables (db_of w (db_file_name h))"
  then have a: "\<not> is_private (db_file_name h)" "0 < count_tables (db_of w (db_file_name h))"
    by simp_all
  from run_keeps [OF a, of ops]
  show "script_runs (trace (snd (run ops h w))) = script_runs (trace w)"
    and "db_of (snd (run ops h w)) (db_file_name h) = db_of w (db_file_name h)"
    by simp_all
next
  assume "\<not> is_private name \<and> openable w name \<and> db_of w name = []
        \<and> f \<noteq> [] \<and> files w f = Some text
        \<and> run_script (statements text) \<lparr>committed = [], pending = None\<rparr> = (Inr (), s)
        \<and> count_rows (committed s) t = Some n
        \<and> statements q = [ts] \<and> parse_stmt ts = Inr (Insert t 1) \<and> count_list ts ''?'' = 0"
  then have a: "\<not> is_private name" "openable w name" "f \<noteq> []" "db_of w name = []"
    "files w f = Some text"
    "run_script (statements text) \<lparr>committed = [], pending = None\<rparr> = (Inr (), s)"
    "count_rows (committed s) t = Some n"
    "statements q = [ts]" "parse_stmt ts = Inr (Insert t 1)" "count_list ts ''?'' = 0"
    by simp_all
  from reopen_scenario [OF a]
  show "count_rows (db_of (reopen_and_insert name f q w) name) t = Some (n + 1)"
    and "script_runs (trace (reopen_and_insert name f q w)) = Suc (script_runs (trace w))"
    by simp_all
qed

theorem init_script_runs_iff_no_table_witness:
  "count_rows (db_of (reopen_and_insert ''testing_sqlite.db'' ''testing_init.sql''
        ''INSERT INTO test_points(x, y) VALUES (100, 200)''
        (fresh_world [(''testing_init.sql'', points_sql)])) ''testing_sqlite.db'')
      ''test_points'' = Some 4
   \<and> script_runs (trace (reopen_and_insert ''testing_sqlite.db'' ''testing_init.sql''
        ''INSERT INTO test_points(x, y) VALUES (100, 200)''
        (fresh_world [(''testing_init.sql'', points_sql)]))) = 1
   \<and> 0 < count_tables (db_of (stored_world [(''testing_init.sql'', points_sql)]
        ''testing_sqlite.db'' [Table ''test_points'' 4]) ''testing_sqlite.db'')
   \<and> script_runs (trace (snd (run [Open, Close, Open, Close, Open]
        (init ''testing_sqlite.db'' (Some ''testing_init.sql''))
        (stored_world [(''testing_init.sql'', points_sql)]
           ''testing_sqlite.db'' [Table ''test_points'' 4])))) = 0
   \<and> db_of (snd (run [Open, Close, Open, Close, Open]
        (init ''testing_sqlite.db'' (Some ''testing_init.sql''))
        (stored_world [(''testing_init.sql'', points_sql)]
           ''testing_sqlite.db'' [Table ''test_points'' 4]))) ''testing_sqlite.db'' =
       [Table ''test_points'' 4]"
proof -
  let ?w = "fresh_world [(''testing_init.sql'', points_sql)]"
  let ?v = "stored_world [(''testing_init.sql'', points_sql)]
           ''testing_sqlite.db'' [Table ''test_points'' 4]"
  let ?h = "init ''testing_sqlite.db'' (Some ''testing_init.sql'')"
  let ?q = "''INSERT INTO test_points(x, y) VALUES (100, 200)''"
  let ?ts = "[''INSERT'', ''INTO'', ''test_points'', ''('', ''x'', '','', ''y'', '')'',
    ''VALUES'', ''('', ''100'', '','', ''200'', '')'']"
  let ?s = "\<lparr>committed = [Table ''test_points'' 3], pending = None\<rparr>"
  have p: "\<not> is_private ''testing_sqlite.db''" by code_simp
  have o: "openable ?w ''testing_sqlite.db''" by (simp add: fresh_world_def)
  have e: "db_of ?w ''testing_sqlite.db'' = []" by code_simp
  have f: "files ?w ''testing_init.sql'' = Some points_sql" by (simp add: fresh_world_def)
  have r: "run_script (statements points_sql) \<lparr>committed = [], pending = None\<rparr> = (Inr (), ?s)"
    by code_simp
  have c: "count_rows (committed ?s) ''test_points'' = Some 3" by code_simp
  have q: "statements ?q = [?ts]" "parse_stmt ?ts = Inr (Insert ''test_points'' 1)"
    "count_list ?ts ''?'' = 0"
    by code_simp+
  have t: "trace ?w = []" "trace ?v = []" by (simp_all add: fresh_world_def stored_world_def)
  have d: "db_of ?v ''testing_sqlite.db'' = [Table ''test_points'' 4]" by code_simp
  have i: "db_file_name ?h = ''testing_sqlite.db''" by (simp add: init_def)
  from init_script_runs_iff_no_table [of ?h ?w _ "''testing_sqlite.db''" "''testing_init.sql''"
      points_sql ?s "''test_points''" 3 ?q ?ts] p o e f r c q t
  have a: "count_rows (db_of (reopen_and_insert ''testing_sqlite.db'' ''testing_init.sql'' ?q ?w)
        ''testing_sqlite.db'') ''test_points'' = Some 4"
    "script_runs (trace (reopen_and_insert ''testing_sqlite.db'' ''testing_init.sql'' ?q ?w)) = 1"
    by simp_all
  have z: "0 < count_tables (db_of ?v ''testing_sqlite.db'')"
    by (simp add: d count_tables_def is_table_simps)
  from init_script_runs_iff_no_table [of ?h ?v "[Open, Close, Open, Close, Open]"] p z i t d
  have b: "script_runs (trace (snd (run [Open, Close, Open, Close, Open] ?h ?v))) = 0"
    "db_of (snd (run [Open, Close, Open, Close, Open] ?h ?v)) ''testing_sqlite.db'' =
       [Table ''test_points'' 4]"
    by simp_all
  from a b z show ?thesis by simp
qed

text \<open>
  Claim C1 as stated ("at most once per database file's lifetime") fails for a script that
  leaves no table: after the first open the file holds a view, and the second open finds no
  table and submits the script a second time.
\<close>

theorem init_script_runs_twice_counterexample:
  "script_runs (trace (snd (run [Open, Close, Open]
      (init ''testing_sqlite.db'' (Some ''testing_init.sql''))
      (fresh_world [(''testing_init.sql'', view_sql)])))) = 2
   \<and> db_of (snd (run [Open, Close]
      (init ''testing_sqlite.db'' (Some ''testing_init.sql''))
      (fresh_world [(''testing_init.sql'', view_sql)]))) ''testing_sqlite.db'' = [View ''v'']"
  by code_simp

subsection \<open>Transaction control and pragma access\<close>

lemma cursor_execute_rejected:
  "live_cursor w k = Inr (c, cn) \<Longrightarrow> statements sql = [ts] \<Longrightarrow> parse_stmt ts = Inl e \<Longrightarrow>
   cursor_execute k sql ps w = (Inl e, emit (EvExecute sql ps) w)"
  by (simp add: cursor_execute_def)

lemma cursor_execute_dead:
  "live_cursor w k = Inl e \<Longrightarrow> cursor_execute k sql ps w = (Inl e, emit (EvExecute sql ps) w)"
  by (simp add: cursor_execute_def)

lemma cursor_execute_plain:
  "live_cursor w k = Inr (c, cn) \<Longrightarrow> statements sql = [ts] \<Longrightarrow> parse_stmt ts = Inr st \<Longrightarrow>
   count_list ts ''?'' = 0 \<Longrightarrow> \<not> changes_rows st \<Longrightarrow>
   fst (cursor_execute k sql [] w) =
     (case exec_stmt st (session_of w cn) of Inl e \<Rightarrow> Inl e | Inr (rows, _) \<Rightarrow> Inr rows)"
  by (simp add: cursor_execute_def implicit_begin_def Let_def split: sum.splits prod.splits)

lemma trace_cursor_execute:
  "trace (snd (cursor_execute k sql ps w)) = trace w @ [EvExecute sql ps]"
  by (simp add: cursor_execute_def Let_def emit_def put_session_def
      split: sum.splits prod.splits list.splits)

lemma start_stmts: "statements Q_START = [[''START'', ''TRANSACTION'']]"
  by code_simp

lemma start_parse:
  "parse_stmt [''START'', ''TRANSACTION''] = Inl (OperationalError ''near START: syntax error'')"
  by code_simp

lemma begin_stmts: "statements ''BEGIN TRANSACTION'' = [[''BEGIN'', ''TRANSACTION'']]"
  by code_simp

lemma begin_parse: "parse_stmt [''BEGIN'', ''TRANSACTION''] = Inr Begin"
  by code_simp

lemma rollback_stmts: "statements Q_ROLLBACK = [[''ROLLBACK'']]"
  by code_simp

lemma rollback_parse: "parse_stmt [''ROLLBACK''] = Inr Rollback"
  by code_simp

lemma get_stmts: "statements ''PRAGMA ?'' = [[''PRAGMA'', ''?'']]"
  by code_simp

lemma get_parse: "parse_stmt [''PRAGMA'', ''?''] = Inl (OperationalError ''near ?: syntax error'')"
  by code_simp

lemma set_stmts: "statements ''PRAGMA ? = ?'' = [[''PRAGMA'', ''?'', ''='', ''?'']]"
  by code_simp

lemma set_parse:
  "parse_stmt [''PRAGMA'', ''?'', ''='', ''?''] = Inl (OperationalError ''near ?: syntax error'')"
  by code_simp

lemma named_stmts: "statements ''PRAGMA foreign_keys'' = [[''PRAGMA'', ''foreign_keys'']]"
  by code_simp

lemma named_parse: "parse_stmt [''PRAGMA'', ''foreign_keys''] = Inr (Pragma ''foreign_keys'')"
  by code_simp

text \<open>
  Claim C9, evaluated. On a closed instance the three methods raise before reaching the
  engine. On an open one each submits its constant, and \<^verbatim>\<open>commit\<close> and \<^verbatim>\<open>rollback\<close> succeed
  exactly when a transaction is active. \<^verbatim>\<open>start_transaction\<close> does not: the engine's
  statement is \<^verbatim>\<open>BEGIN\<close> (accepted below when no transaction is active), and the text of
  \<open>Q_START\<close> is rejected as a syntax error at its first word, whatever the state of the
  connection; no transaction is started.
\<close>

theorem start_transaction_is_rejected:
  "(case cursor h of
      None \<Rightarrow>
        start_transaction h w = (Inl AttributeError, w)
        \<and> commit h w = (Inl AttributeError, w)
        \<and> rollback h w = (Inl AttributeError, w)
    | Some k \<Rightarrow>
        trace (snd (start_transaction h w)) = trace w @ [EvExecute Q_START []]
        \<and> trace (snd (commit h w)) = trace w @ [EvExecute Q_COMMIT []]
        \<and> trace (snd (rollback h w)) = trace w @ [EvExecute Q_ROLLBACK []]
        \<and> (case live_cursor w k of
              Inl e \<Rightarrow> fst (start_transaction h w) = Inl e
            | Inr (c, cn) \<Rightarrow>
                start_transaction h w =
                  (Inl (OperationalError ''near START: syntax error''),
                   emit (EvExecute Q_START []) w)
                \<and> fst (cursor_execute k ''BEGIN TRANSACTION'' [] w) =
                    (case tx cn of
                       None \<Rightarrow> Inr []
                     | Some _ \<Rightarrow>
                         Inl (OperationalError
                                ''cannot start a transaction within a transaction''))
                \<and> fst (commit h w) =
                    (case tx cn of
                       None \<Rightarrow> Inl (OperationalError ''cannot commit - no transaction is active'')
                     | Some _ \<Rightarrow> Inr ())
                \<and> fst (rollback h w) =
                    (case tx cn of
                       None \<Rightarrow>
                         Inl (OperationalError ''cannot rollback - no transaction is active'')
                     | Some _ \<Rightarrow> Inr ())))"
proof (cases "cursor h")
  case None
  then show ?thesis
    by (simp add: start_transaction_def commit_def rollback_def)
next
  case (Some k)
  have t: "trace (snd (start_transaction h w)) = trace w @ [EvExecute Q_START []]"
    "trace (snd (commit h w)) = trace w @ [EvExecute Q_COMMIT []]"
    "trace (snd (rollback h w)) = trace w @ [EvExecute Q_ROLLBACK []]"
    using trace_cursor_execute [of k Q_START "[]" w] trace_cursor_execute [of k Q_COMMIT "[]" w]
      trace_cursor_execute [of k Q_ROLLBACK "[]" w]
    by (auto simp add: start_transaction_def commit_def rollback_def Some
        split: prod.splits sum.splits)
  show ?thesis
  proof (cases "live_cursor w k")
    case (Inl e)
    then show ?thesis
      using t by (simp add: Some start_transaction_def cursor_execute_dead)
  next
    case (Inr p)
    obtain c cn where p: "p = (c, cn)" by (cases p) auto
    have l: "live_cursor w k = Inr (c, cn)" by (simp add: Inr p)
    have s: "start_transaction h w =
        (Inl (OperationalError ''near START: syntax error''), emit (EvExecute Q_START []) w)"
      by (simp add: start_transaction_def Some
          cursor_execute_rejected [OF l start_stmts start_parse])
    have b: "fst (cursor_execute k ''BEGIN TRANSACTION'' [] w) =
        (case tx cn of
           None \<Rightarrow> Inr []
         | Some _ \<Rightarrow> Inl (OperationalError ''cannot start a transaction within a transaction''))"
      by (simp add: cursor_execute_plain [OF l begin_stmts begin_parse] exec_stmt_def
          session_of_def split: option.splits)
    have c: "fst (commit h w) =
        (case tx cn of
           None \<Rightarrow> Inl (OperationalError ''cannot commit - no transaction is active'')
         | Some _ \<Rightarrow> Inr ())"
      using cursor_execute_plain [OF l statements_commit parse_commit]
      by (auto simp add: commit_def Some exec_stmt_def session_of_def
          split: option.splits prod.splits sum.splits)
    have r: "fst (rollback h w) =
        (case tx cn of
           None \<Rightarrow> Inl (OperationalError ''cannot rollback - no transaction is active'')
         | Some _ \<Rightarrow> Inr ())"
      using cursor_execute_plain [OF l rollback_stmts rollback_parse]
      by (auto simp add: rollback_def Some exec_stmt_def session_of_def
          split: option.splits prod.splits sum.splits)
    from t s b c r show ?thesis
      by (simp add: Some l)
  qed
qed

text \<open>
  Claim C8, evaluated. On an open instance both indexed accesses fail, for every name and
  value: the statement texts put a bind parameter where the engine's grammar wants the
  pragma's name, and the engine rejects them before it looks at the parameters. So does
  \<^verbatim>\<open>check\<close>, which reads two pragmas this way. The same pragma with its name written into
  the text is accepted.
\<close>

theorem pragma_access_is_rejected:
  "(case cursor h of
      None \<Rightarrow>
        getitem h item w = (Inl AttributeError, w)
        \<and> setitem h key val w = (Inl AttributeError, w)
    | Some k \<Rightarrow>
        trace (snd (getitem h item w)) = trace w @ [EvExecute ''PRAGMA ?'' [TextV item]]
        \<and> trace (snd (setitem h key val w)) = trace w @ [EvExecute ''PRAGMA ? = ?'' [key, val]]
        \<and> (case live_cursor w k of
              Inl e \<Rightarrow> fst (getitem h item w) = Inl e \<and> fst (setitem h key val w) = Inl e
            | Inr (c, cn) \<Rightarrow>
                getitem h item w =
                  (Inl (OperationalError ''near ?: syntax error''),
                   emit (EvExecute ''PRAGMA ?'' [TextV item]) w)
                \<and> setitem h key val w =
                  (Inl (OperationalError ''near ?: syntax error''),
                   emit (EvExecute ''PRAGMA ? = ?'' [key, val]) w)
                \<and> fst (check h w) = Inl (OperationalError ''near ?: syntax error'')
                \<and> fst (cursor_execute k ''PRAGMA foreign_keys'' [] w) = Inr []))"
proof (cases "cursor h")
  case None
  then show ?thesis by (simp add: getitem_def setitem_def)
next
  case (Some k)
  have t: "trace (snd (getitem h item w)) = trace w @ [EvExecute ''PRAGMA ?'' [TextV item]]"
    "trace (snd (setitem h key val w)) = trace w @ [EvExecute ''PRAGMA ? = ?'' [key, val]]"
    using trace_cursor_execute [of k "''PRAGMA ?''" "[TextV item]" w]
      trace_cursor_execute [of k "''PRAGMA ? = ?''" "[key, val]" w]
    by (auto simp add: getitem_def setitem_def Some split: prod.splits sum.splits)
  show ?thesis
  proof (cases "live_cursor w k")
    case (Inl e)
    then show ?thesis
      using t by (simp add: Some getitem_def setitem_def cursor_execute_dead)
  next
    case (Inr p)
    obtain c cn where p: "p = (c, cn)" by (cases p) auto
    have l: "live_cursor w k = Inr (c, cn)" by (simp add: Inr p)
    have g: "getitem h item w =
        (Inl (OperationalError ''near ?: syntax error''),
         emit (EvExecute ''PRAGMA ?'' [TextV item]) w)" for item
      by (simp add: getitem_def Some cursor_execute_rejected [OF l get_stmts get_parse])
    have s: "setitem h key val w =
        (Inl (OperationalError ''near ?: syntax error''),
         emit (EvExecute ''PRAGMA ? = ?'' [key, val]) w)"
      by (simp add: setitem_def Some cursor_execute_rejected [OF l set_stmts set_parse])
    have c: "fst (check h w) = Inl (OperationalError ''near ?: syntax error'')"
      by (simp add: check_def g)
    have n: "fst (cursor_execute k ''PRAGMA foreign_keys'' [] w) = Inr []"
      by (simp add: cursor_execute_plain [OF l named_stmts named_parse] exec_stmt_def)
    from t g s c n show ?thesis
      by (simp add: Some l)
  qed
qed

end
